theory Spec2Isabelle
  imports Main "HOL-Library.Word" "HOL-Library.Code_Target_Numeral"
begin

section \<open>The audit collector of pgaudit.cpp\<close>

text \<open>
  A shallow embedding of the audit collector
  (\<^verbatim>\<open>src/gausskernel/process/postmaster/pgaudit.cpp\<close>): the chunked pipe protocol, the
  audit index table with rotation and retention, and the scan of audit files by the query
  and delete entry points. Bytes are \<open>8 word\<close>; multi-byte integers are stored in host
  byte order, which is little-endian on the platforms the server builds for.
\<close>

type_synonym byte = "8 word"

subsection \<open>The pipe protocol, producer side\<close>

text \<open>
  \<^verbatim>\<open>PIPE_CHUNK_SIZE\<close> is fixed by the preprocessor from the platform's \<^verbatim>\<open>PIPE_BUF\<close>
  (\<open>None\<close>: the macro is not defined). POSIX requires \<^verbatim>\<open>PIPE_BUF\<close> to be at least 512.
  \<^verbatim>\<open>PIPE_HEADER_SIZE\<close> is \<^verbatim>\<open>offsetof(PipeProtoHeader, data)\<close>: two sentinel bytes, a 16-bit
  length, four bytes of padding, the 8-byte thread id and the \<^verbatim>\<open>is_last\<close> byte.
\<close>

definition PIPE_CHUNK_SIZE :: "nat option \<Rightarrow> nat" where
  "PIPE_CHUNK_SIZE pipe_buf =
     (case pipe_buf of
        Some b \<Rightarrow> (if b > 65536 then 65536 else b)
      | None \<Rightarrow> 512)"

definition PIPE_HEADER_SIZE :: nat where
  "PIPE_HEADER_SIZE = 17"

definition PIPE_MAX_PAYLOAD :: "nat option \<Rightarrow> int" where
  "PIPE_MAX_PAYLOAD pipe_buf = int (PIPE_CHUNK_SIZE pipe_buf) - int PIPE_HEADER_SIZE"

text \<open>
  One \<^verbatim>\<open>write()\<close> of \<^verbatim>\<open>write_pipe_chunks\<close>: the fields of the \<^verbatim>\<open>PipeProtoChunk\<close> on the
  stack and the payload bytes that the call hands to the pipe. The pipe is the list of
  the chunks written so far. The result of \<^verbatim>\<open>write()\<close> is ignored by the source.
\<close>

record PipeProtoChunk =
  nuls :: "byte list"
  len :: "16 word"
  pid :: nat
  is_last :: byte
  payload :: "byte list"

text \<open>
  The loop \<^verbatim>\<open>while (len > PIPE_MAX_PAYLOAD)\<close>: it returns the data not yet sent. With a
  payload limit of zero the source never leaves this loop, and neither does the model
  (the result is \<open>None\<close>).
\<close>

partial_function (option) write_chunks_loop ::
  "nat option \<Rightarrow> nat \<Rightarrow> byte list \<Rightarrow> PipeProtoChunk list \<Rightarrow>
   (byte list \<times> PipeProtoChunk list) option"
where
  "write_chunks_loop pb mypid d pipe =
     (if int (length d) > PIPE_MAX_PAYLOAD pb
      then write_chunks_loop pb mypid (drop (nat (PIPE_MAX_PAYLOAD pb)) d)
             (pipe @ [\<lparr>nuls = [0, 0], len = word_of_int (PIPE_MAX_PAYLOAD pb), pid = mypid,
                       is_last = 0x66, payload = take (nat (PIPE_MAX_PAYLOAD pb)) d\<rparr>])
      else Some (d, pipe))"

declare write_chunks_loop.simps [code]

definition write_pipe_chunks ::
  "nat option \<Rightarrow> nat \<Rightarrow> byte list \<Rightarrow> PipeProtoChunk list \<Rightarrow> PipeProtoChunk list option"
where
  "write_pipe_chunks pb mypid d pipe =
     (case write_chunks_loop pb mypid d pipe of
        None \<Rightarrow> None
      | Some (d', pipe') \<Rightarrow>
          Some (pipe' @ [\<lparr>nuls = [0, 0], len = of_nat (length d'), pid = mypid,
                          is_last = 0x74, payload = d'\<rparr>]))"

subsection \<open>Descriptions of audit types and results\<close>

definition AuditTypeDescs :: "string list" where
  "AuditTypeDescs =
     [''unknown'', ''login_success'', ''login_failed'', ''user_logout'', ''system_start'',
      ''system_stop'', ''system_recover'', ''system_switch'', ''lock_user'', ''unlock_user'',
      ''grant_role'', ''revoke_role'', ''user_violation'', ''ddl_database'', ''ddl_directory'',
      ''ddl_tablespace'', ''ddl_schema'', ''ddl_user'', ''ddl_table'', ''ddl_index'',
      ''ddl_view'', ''ddl_trigger'', ''ddl_function'', ''ddl_resourcepool'', ''ddl_workload'',
      ''ddl_serverforhadoop'', ''ddl_datasource'', ''ddl_nodegroup'', ''ddl_rowlevelsecurity'',
      ''ddl_synonym'', ''ddl_type'', ''ddl_textsearch'', ''dml_action'', ''dml_action_select'',
      ''internal_event'', ''function_exec'', ''copy_to'', ''copy_from'', ''set_parameter'']"

definition AuditTypeNum :: int where
  "AuditTypeNum = int (length AuditTypeDescs)"

definition AuditResultDescs :: "string list" where
  "AuditResultDescs = [''unknown'', ''ok'', ''failed'']"

definition AuditResultNum :: int where
  "AuditResultNum = int (length AuditResultDescs)"

text \<open>
  The macros \<^verbatim>\<open>AuditTypeDesc\<close> and \<^verbatim>\<open>AuditResultDesc\<close>, split into the index they
  compute and the table access. The argument is the 32-bit enum field of the record, read
  as a signed value.
\<close>

definition AuditTypeIndex :: "32 word \<Rightarrow> nat" where
  "AuditTypeIndex t = (if sint t > 0 \<and> sint t < AuditTypeNum then nat (sint t) else 0)"

definition AuditTypeDesc :: "32 word \<Rightarrow> string" where
  "AuditTypeDesc t = AuditTypeDescs ! AuditTypeIndex t"

definition AuditResultIndex :: "32 word \<Rightarrow> nat" where
  "AuditResultIndex r = (if sint r > 0 \<and> sint r < AuditResultNum then nat (sint r) else 0)"

definition AuditResultDesc :: "32 word \<Rightarrow> string" where
  "AuditResultDesc r = AuditResultDescs ! AuditResultIndex r"

subsection \<open>Integers in byte sequences\<close>

text \<open>
  Structures are read from and written to files as their memory image. \<open>le_nat\<close> reads
  an unsigned little-endian integer, \<open>le_bytes n\<close> writes one in \<open>n\<close> bytes, \<open>s64\<close>
  reads 64 bits as a signed value (\<^verbatim>\<open>pg_time_t\<close>) and \<open>u64\<close> is its memory image.
\<close>

fun le_nat :: "byte list \<Rightarrow> nat" where
  "le_nat [] = 0"
| "le_nat (b # bs) = unat b + 256 * le_nat bs"

fun le_bytes :: "nat \<Rightarrow> nat \<Rightarrow> byte list" where
  "le_bytes 0 v = []"
| "le_bytes (Suc n) v = of_nat (v mod 256) # le_bytes n (v div 256)"

definition s64 :: "nat \<Rightarrow> int" where
  "s64 v = (if v mod 2 ^ 64 < 2 ^ 63 then int (v mod 2 ^ 64) else int (v mod 2 ^ 64) - 2 ^ 64)"

definition u64 :: "int \<Rightarrow> nat" where
  "u64 i = nat (i mod 2 ^ 64)"

subsection \<open>Errors and loop exits\<close>

text \<open>
  \<open>PermissionDenied\<close>, \<open>FeatureNotSupported\<close> and \<open>SystemError\<close> are the
  \<^verbatim>\<open>ereport(ERROR, ...)\<close> exits of the entry points; \<open>SecurecError\<close> is a failed
  \<^verbatim>\<open>securec_check\<close>; \<open>AllocError\<close> is \<^verbatim>\<open>palloc\<close> refusing a request above
  \<^verbatim>\<open>MaxAllocSize\<close>; \<open>WriteError\<close> is a failed \<^verbatim>\<open>fwrite\<close>; \<open>Fatal\<close> is
  \<^verbatim>\<open>ereport(FATAL, ...)\<close>; \<open>OutOfBounds\<close> and \<open>DivisionByZero\<close> stand for an access
  outside an allocated object and for \<^verbatim>\<open>% 0\<close>, where C leaves the behaviour undefined.
  \<open>NoClockReading\<close> is not an error of the program: the collector reads the wall
  clock, the model is given the readings as a list, and this is the result when the
  list is used up.
\<close>

datatype error =
    PermissionDenied | FeatureNotSupported | SystemError
  | SecurecError | AllocError | WriteError | Fatal | OutOfBounds | DivisionByZero
  | NoClockReading

datatype 'a loop = Break 'a | Continue 'a

subsection \<open>The record header\<close>

text \<open>
  \<^verbatim>\<open>AuditMsgHdr\<close> occupies 24 bytes: \<^verbatim>\<open>signature\<close> at 0, \<^verbatim>\<open>version\<close> at 2,
  \<^verbatim>\<open>fields\<close> at 4, \<^verbatim>\<open>flags\<close> at 6, \<^verbatim>\<open>time\<close> at 8, \<^verbatim>\<open>size\<close> at 16 and four bytes
  of padding. \<^verbatim>\<open>AuditData\<close> adds \<^verbatim>\<open>type\<close> at 24 and \<^verbatim>\<open>result\<close> at 28, so that
  \<^verbatim>\<open>AUDIT_HEADER_SIZE\<close> is 32. A header is kept as its 24-byte image, since the scans
  read and write it whole; the functions below are its fields.
\<close>

definition sizeof_AuditMsgHdr :: nat where
  "sizeof_AuditMsgHdr = 24"

definition AUDIT_HEADER_SIZE :: nat where
  "AUDIT_HEADER_SIZE = 32"

definition PGAUDIT_QUERY_COLS :: nat where
  "PGAUDIT_QUERY_COLS = 13"

definition AUDIT_TUPLE_NORMAL :: nat where
  "AUDIT_TUPLE_NORMAL = 1"

definition AUDIT_TUPLE_DEAD :: nat where
  "AUDIT_TUPLE_DEAD = 2"

definition hdr_signature :: "byte list \<Rightarrow> byte list" where
  "hdr_signature h = take 2 h"

definition hdr_version :: "byte list \<Rightarrow> nat" where
  "hdr_version h = le_nat (take 2 (drop 2 h))"

definition hdr_fields :: "byte list \<Rightarrow> nat" where
  "hdr_fields h = le_nat (take 2 (drop 4 h))"

definition hdr_flags :: "byte list \<Rightarrow> nat" where
  "hdr_flags h = le_nat (take 2 (drop 6 h))"

definition hdr_time :: "byte list \<Rightarrow> int" where
  "hdr_time h = s64 (le_nat (take 8 (drop 8 h)))"

definition hdr_size :: "byte list \<Rightarrow> nat" where
  "hdr_size h = le_nat (take 4 (drop 16 h))"

definition set_hdr_flags :: "byte list \<Rightarrow> nat \<Rightarrow> byte list" where
  "set_hdr_flags h v = take 6 h @ le_bytes 2 v @ drop 8 h"

text \<open>The test that ends a scan with "invalid data in audit file".\<close>

definition hdr_invalid :: "byte list \<Rightarrow> bool" where
  "hdr_invalid h \<longleftrightarrow>
     hdr_signature h \<noteq> [0x41, 0x55] \<or> hdr_version h \<noteq> 0 \<or> hdr_fields h \<noteq> PGAUDIT_QUERY_COLS"

text \<open>
  The test of both scans on a header: the record's time, converted by
  \<^verbatim>\<open>time_t_to_timestamptz\<close> (declared outside this file: the parameter \<open>tz\<close>), lies in
  \<open>[begtime, endtime)\<close> and the record is live.
\<close>

definition hdr_selected :: "(int \<Rightarrow> int) \<Rightarrow> int \<Rightarrow> int \<Rightarrow> byte list \<Rightarrow> bool" where
  "hdr_selected tz begtime endtime h \<longleftrightarrow>
     tz (hdr_time h) \<ge> begtime \<and> tz (hdr_time h) < endtime \<and> hdr_flags h = AUDIT_TUPLE_NORMAL"

subsection \<open>The delete scan of one file\<close>

text \<open>
  \<^verbatim>\<open>pgaudit_delete_file\<close> works on a file descriptor: the bytes of the file, the file
  offset, and the local \<^verbatim>\<open>header\<close>, which a short \<^verbatim>\<open>read\<close> overwrites only in part.
  \<^verbatim>\<open>lseek\<close> fails when the offset would become negative; otherwise the system calls are
  taken to succeed.
\<close>

record delete_scan =
  fd_data :: "byte list"
  fd_pos :: nat
  del_header :: "byte list"

text \<open>\<^verbatim>\<open>lseek(fd, header.size - sizeof(AuditMsgHdr), SEEK_CUR)\<close>\<close>

definition delete_seek_body :: "delete_scan \<Rightarrow> delete_scan loop" where
  "delete_seek_body s =
     (let newpos = int (fd_pos s) + (int (hdr_size (del_header s)) - int sizeof_AuditMsgHdr)
      in if newpos < 0 then Break s else Continue (s\<lparr>fd_pos := nat newpos\<rparr>))"

definition delete_step ::
  "(int \<Rightarrow> int) \<Rightarrow> int \<Rightarrow> int \<Rightarrow> delete_scan \<Rightarrow> delete_scan loop"
where
  "delete_step tz begtime endtime s =
     (let nread = min sizeof_AuditMsgHdr (length (fd_data s) - fd_pos s)
      in if nread = 0 then Break s
         else
           let h = take sizeof_AuditMsgHdr
                     (take nread (drop (fd_pos s) (fd_data s)) @ drop nread (del_header s));
               s1 = s\<lparr>fd_pos := fd_pos s + nread, del_header := h\<rparr>
           in if hdr_invalid h then Break s1
              else if hdr_selected tz begtime endtime h
              then
                let h' = set_hdr_flags h AUDIT_TUPLE_DEAD;
                    s2 = s1\<lparr>del_header := h'\<rparr>
                in if fd_pos s2 < sizeof_AuditMsgHdr then Break s2
                   else delete_seek_body
                          (s2\<lparr>fd_data := take (fd_pos s2 - sizeof_AuditMsgHdr) (fd_data s2) @ h'
                                            @ drop (fd_pos s2) (fd_data s2)\<rparr>)
              else delete_seek_body s1)"

text \<open>
  The \<^verbatim>\<open>do ... while (true)\<close> loop. A header whose \<^verbatim>\<open>size\<close> is zero sends the offset
  back to where it was, so the loop need not end: the result is then \<open>None\<close>.
\<close>

partial_function (option) delete_loop ::
  "(int \<Rightarrow> int) \<Rightarrow> int \<Rightarrow> int \<Rightarrow> delete_scan \<Rightarrow> delete_scan option"
where
  "delete_loop tz begtime endtime s =
     (case delete_step tz begtime endtime s of
        Break s' \<Rightarrow> Some s'
      | Continue s' \<Rightarrow> delete_loop tz begtime endtime s')"

declare delete_loop.simps [code]

text \<open>
  The audit directory maps a file number to the bytes of \<^verbatim>\<open><filenum>_adt\<close>. The scan
  of a file that cannot be opened is skipped. \<open>stack\<close> is the content of the
  uninitialised local \<^verbatim>\<open>header\<close>.
\<close>

type_synonym audit_dir = "nat \<Rightarrow> byte list option"

definition pgaudit_delete_file ::
  "(int \<Rightarrow> int) \<Rightarrow> byte list \<Rightarrow> nat \<Rightarrow> int \<Rightarrow> int \<Rightarrow> audit_dir \<Rightarrow> audit_dir option"
where
  "pgaudit_delete_file tz stack fnum begtime endtime dir =
     (case dir fnum of
        None \<Rightarrow> Some dir
      | Some f \<Rightarrow>
          (case delete_loop tz begtime endtime \<lparr>fd_data = f, fd_pos = 0, del_header = stack\<rparr> of
             None \<Rightarrow> None
           | Some s \<Rightarrow> Some (dir(fnum \<mapsto> fd_data s))))"

subsection \<open>Rows of a query\<close>

text \<open>
  A row has 13 columns: the time, the descriptions of type and result, and ten string
  fields. \<^verbatim>\<open>pgaudit_string_field\<close> walks the string table behind the fixed part of
  the record; \<open>adata\<close> is the record as read into memory, \<open>hdr_size adata\<close> bytes long.
  The walk reads each length without testing that four bytes remain, and the 32-bit
  \<^verbatim>\<open>datalen\<close> wraps below zero; a read behind the record is the error \<open>OutOfBounds\<close>.
  The result is the offset of the field in the record, or \<open>None\<close> for \<^verbatim>\<open>NULL\<close>.
\<close>

definition MaxAllocSize :: nat where
  "MaxAllocSize = 0x3fffffff"

record audit_row =
  row_time :: int
  row_type :: string
  row_result :: string
  row_fields :: "byte list list"

fun string_field_loop :: "byte list \<Rightarrow> nat \<Rightarrow> nat \<Rightarrow> nat \<Rightarrow> error + nat option" where
  "string_field_loop adata 0 field datalen =
     (if length adata < field + 4 then Inl OutOfBounds
      else
        let fsize = le_nat (take 4 (drop field adata));
            datalen1 = (datalen + 2 ^ 32 - 4) mod 2 ^ 32
        in if fsize > datalen1 then Inr None
           else Inr (if fsize = 0 then None else Some (field + 4)))"
| "string_field_loop adata (Suc k) field datalen =
     (if length adata < field + 4 then Inl OutOfBounds
      else
        let fsize = le_nat (take 4 (drop field adata));
            datalen1 = (datalen + 2 ^ 32 - 4) mod 2 ^ 32
        in if fsize > datalen1 then Inr None
           else string_field_loop adata k (field + 4 + fsize) (datalen1 - fsize))"

definition pgaudit_string_field :: "byte list \<Rightarrow> nat \<Rightarrow> error + nat option" where
  "pgaudit_string_field adata num =
     string_field_loop adata num AUDIT_HEADER_SIZE
       ((hdr_size adata + 2 ^ 32 - AUDIT_HEADER_SIZE) mod 2 ^ 32)"

text \<open>\<^verbatim>\<open>CStringGetTextDatum\<close>: the bytes from an offset up to the next zero byte.\<close>

definition cstring :: "byte list \<Rightarrow> nat \<Rightarrow> error + byte list" where
  "cstring adata off =
     (let rest = drop off adata
      in if 0 \<in> set rest then Inr (takeWhile (\<lambda>b. b \<noteq> 0) rest) else Inl OutOfBounds)"

definition null_text :: "byte list" where
  "null_text = [0x6E, 0x75, 0x6C, 0x6C]"

definition row_field :: "byte list \<Rightarrow> nat \<Rightarrow> error + byte list" where
  "row_field adata num =
     (case pgaudit_string_field adata num of
        Inl e \<Rightarrow> Inl e
      | Inr None \<Rightarrow> Inr null_text
      | Inr (Some off) \<Rightarrow> cstring adata off)"

fun collect :: "(error + 'a) list \<Rightarrow> error + 'a list" where
  "collect [] = Inr []"
| "collect (x # xs) =
     (case x of
        Inl e \<Rightarrow> Inl e
      | Inr v \<Rightarrow> (case collect xs of Inl e \<Rightarrow> Inl e | Inr vs \<Rightarrow> Inr (v # vs)))"

definition adata_type :: "byte list \<Rightarrow> error + 32 word" where
  "adata_type adata =
     (if length adata < 28 then Inl OutOfBounds
      else Inr (word_of_nat (le_nat (take 4 (drop 24 adata)))))"

definition adata_result :: "byte list \<Rightarrow> error + 32 word" where
  "adata_result adata =
     (if length adata < 32 then Inl OutOfBounds
      else Inr (word_of_nat (le_nat (take 4 (drop 28 adata)))))"

text \<open>
  The row that \<^verbatim>\<open>pgaudit_query_file\<close> builds from a selected record; the string fields
  are \<^verbatim>\<open>AUDIT_USER_ID\<close> (0) to \<^verbatim>\<open>AUDIT_REMOTEPORT_INFO\<close> (9).
\<close>

definition mk_row :: "(int \<Rightarrow> int) \<Rightarrow> byte list \<Rightarrow> error + audit_row" where
  "mk_row tz adata =
     (case adata_type adata of
        Inl e \<Rightarrow> Inl e
      | Inr t \<Rightarrow>
          (case adata_result adata of
             Inl e \<Rightarrow> Inl e
           | Inr r \<Rightarrow>
               (case collect (map (row_field adata) [0..<10]) of
                  Inl e \<Rightarrow> Inl e
                | Inr fs \<Rightarrow>
                    Inr \<lparr>row_time = tz (hdr_time adata), row_type = AuditTypeDesc t,
                         row_result = AuditResultDesc r, row_fields = fs\<rparr>)))"

subsection \<open>The query scan of one file\<close>

text \<open>
  \<^verbatim>\<open>fread\<close> of one item returns 0 when fewer bytes remain than the item has, and
  when the item has no bytes at all. \<^verbatim>\<open>palloc\<close> refuses more than \<^verbatim>\<open>MaxAllocSize\<close>
  bytes and \<^verbatim>\<open>memcpy_s\<close> refuses to copy the 24 header bytes into a smaller block;
  both end the query with an error. Every pass that continues moves the offset forward
  by at least 25 bytes, so the loop ends.
\<close>

function query_loop ::
  "(int \<Rightarrow> int) \<Rightarrow> int \<Rightarrow> int \<Rightarrow> byte list \<Rightarrow> nat \<Rightarrow> audit_row list
   \<Rightarrow> error + audit_row list"
where
  "query_loop tz begtime endtime f pos rows =
     (if length f - pos < sizeof_AuditMsgHdr then Inr rows
      else
        let h = take sizeof_AuditMsgHdr (drop pos f)
        in if hdr_invalid h then Inr rows
           else if hdr_size h > MaxAllocSize then Inl AllocError
           else if hdr_size h < sizeof_AuditMsgHdr then Inl SecurecError
           else if hdr_size h = sizeof_AuditMsgHdr
                   \<or> length f - (pos + sizeof_AuditMsgHdr) < hdr_size h - sizeof_AuditMsgHdr
                then Inr rows
           else if hdr_selected tz begtime endtime h
           then (case mk_row tz (take (hdr_size h) (drop pos f)) of
                   Inl e \<Rightarrow> Inl e
                 | Inr row \<Rightarrow>
                     query_loop tz begtime endtime f (pos + hdr_size h) (rows @ [row]))
           else query_loop tz begtime endtime f (pos + hdr_size h) rows)"
  by pat_completeness auto
termination
  by (relation "measure (\<lambda>(tz, b, e, f, pos, rows). length f - pos)")
     (auto simp: sizeof_AuditMsgHdr_def)

declare query_loop.simps [simp del]

text \<open>
  The result of a query: the rows stored so far and the numbers of the files it tried
  to open, in order.
\<close>

record query_result =
  q_rows :: "audit_row list"
  q_opened :: "nat list"

definition pgaudit_query_file ::
  "(int \<Rightarrow> int) \<Rightarrow> audit_dir \<Rightarrow> nat \<Rightarrow> int \<Rightarrow> int \<Rightarrow> query_result \<Rightarrow> error + query_result"
where
  "pgaudit_query_file tz dir fnum begtime endtime st =
     (case dir fnum of
        None \<Rightarrow> Inr (st\<lparr>q_opened := q_opened st @ [fnum]\<rparr>)
      | Some f \<Rightarrow>
          (case query_loop tz begtime endtime f 0 (q_rows st) of
             Inl e \<Rightarrow> Inl e
           | Inr rows \<Rightarrow> Inr \<lparr>q_rows = rows, q_opened = q_opened st @ [fnum]\<rparr>))"

subsection \<open>The audit index table\<close>

text \<open>
  \<^verbatim>\<open>pg_time_t\<close> values are integers (no clock reaches the ends of 64 bits); the
  \<^verbatim>\<open>uint32\<close> fields are natural numbers, with the wrap-around written where the source
  adds. \<open>data\<close> is the array behind the header, \<open>maxnum\<close> entries long when the table
  was built by this file.
\<close>

record AuditIndexItem =
  ctime :: int
  filenum :: nat
  filesize :: nat

record AuditIndexTable =
  maxnum :: nat
  begidx :: nat
  curidx :: nat
  count :: nat
  last_audit_time :: int
  data :: "AuditIndexItem list"

definition pgaudit_check_system ::
  "(int \<Rightarrow> int) \<Rightarrow> AuditIndexTable \<Rightarrow> int \<Rightarrow> int \<Rightarrow> nat \<Rightarrow> error + bool"
where
  "pgaudit_check_system tz tbl begtime endtime index =
     (if index \<ge> length (data tbl) then Inl OutOfBounds
      else
        let item = data tbl ! index
        in if ctime item > 0
           then
             let curr_filetime = tz (ctime item)
             in if index = curidx tbl
                then Inr (curr_filetime \<le> begtime \<or> curr_filetime \<le> endtime)
                else if maxnum tbl = 0 then Inl DivisionByZero
                else
                  let nidx = ((index + 1) mod 2 ^ 32) mod maxnum tbl
                  in if nidx \<ge> length (data tbl) then Inl OutOfBounds
                     else
                       let next = data tbl ! nidx
                       in if ctime next > 0
                          then Inr (max curr_filetime begtime \<le> min (tz (ctime next)) endtime)
                          else Inr (curr_filetime \<le> begtime \<or> curr_filetime \<le> endtime)
           else Inr True)"

subsection \<open>The entry points\<close>

text \<open>
  What the entry points test before they touch the audit directory: the privilege of
  the caller and, for the query, the caller's ability to take a materialised set of rows
  with 13 columns.
\<close>

record fmgr_ctx =
  has_auditadmin_privilege :: bool
  rsinfo_is_ReturnSetInfo :: bool
  materialize_allowed :: bool
  result_type_composite :: bool
  natts :: nat

definition query_entry_checks :: "fmgr_ctx \<Rightarrow> error option" where
  "query_entry_checks ctx =
     (if \<not> has_auditadmin_privilege ctx then Some PermissionDenied
      else if \<not> rsinfo_is_ReturnSetInfo ctx then Some FeatureNotSupported
      else if \<not> materialize_allowed ctx then Some FeatureNotSupported
      else if \<not> result_type_composite ctx then Some SystemError
      else if natts ctx \<noteq> PGAUDIT_QUERY_COLS then Some SystemError
      else None)"

text \<open>
  The walk over the ring from \<open>begidx\<close> to \<open>curidx\<close>. It ends when the index meets
  \<open>curidx\<close>; on a table whose \<open>curidx\<close> is not below \<open>maxnum\<close> it need not end.
\<close>

partial_function (option) query_ring ::
  "(int \<Rightarrow> int) \<Rightarrow> audit_dir \<Rightarrow> AuditIndexTable \<Rightarrow> int \<Rightarrow> int \<Rightarrow> nat \<Rightarrow> query_result
   \<Rightarrow> (error + query_result) option"
where
  "query_ring tz dir tbl begtime endtime index st =
     (if index \<ge> length (data tbl) then Some (Inl OutOfBounds)
      else
        (case pgaudit_check_system tz tbl begtime endtime index of
           Inl er \<Rightarrow> Some (Inl er)
         | Inr satisfied \<Rightarrow>
             (case (if satisfied
                    then pgaudit_query_file tz dir (filenum (data tbl ! index)) begtime endtime st
                    else Inr st) of
                Inl er \<Rightarrow> Some (Inl er)
              | Inr st' \<Rightarrow>
                  if index = curidx tbl then Some (Inr st')
                  else if maxnum tbl = 0 then Some (Inl DivisionByZero)
                  else query_ring tz dir tbl begtime endtime
                         (((index + 1) mod 2 ^ 32) mod maxnum tbl) st')))"

declare query_ring.simps [code]

text \<open>
  \<open>indexfile\<close> is what \<^verbatim>\<open>pgaudit_read_indexfile\<close> leaves in memory: the table read
  from \<^verbatim>\<open>index_table\<close>, or nothing.
\<close>

definition pg_query_audit ::
  "fmgr_ctx \<Rightarrow> (int \<Rightarrow> int) \<Rightarrow> AuditIndexTable option \<Rightarrow> audit_dir \<Rightarrow> int \<Rightarrow> int
   \<Rightarrow> (error + query_result) option"
where
  "pg_query_audit ctx tz indexfile dir begtime endtime =
     (case query_entry_checks ctx of
        Some e \<Rightarrow> Some (Inl e)
      | None \<Rightarrow>
          (case indexfile of
             None \<Rightarrow> Some (Inr \<lparr>q_rows = [], q_opened = []\<rparr>)
           | Some tbl \<Rightarrow>
               if begtime < endtime \<and> count tbl > 0
               then query_ring tz dir tbl begtime endtime (begidx tbl) \<lparr>q_rows = [], q_opened = []\<rparr>
               else Some (Inr \<lparr>q_rows = [], q_opened = []\<rparr>)))"

record delete_result =
  d_dir :: audit_dir
  d_opened :: "nat list"

partial_function (option) delete_ring ::
  "(int \<Rightarrow> int) \<Rightarrow> byte list \<Rightarrow> AuditIndexTable \<Rightarrow> int \<Rightarrow> int \<Rightarrow> nat \<Rightarrow> delete_result
   \<Rightarrow> (error + delete_result) option"
where
  "delete_ring tz stack tbl begtime endtime index st =
     (if index \<ge> length (data tbl) then Some (Inl OutOfBounds)
      else
        (case pgaudit_check_system tz tbl begtime endtime index of
           Inl er \<Rightarrow> Some (Inl er)
         | Inr satisfied \<Rightarrow>
             (case (if satisfied
                    then map_option
                           (\<lambda>d. \<lparr>d_dir = d, d_opened = d_opened st @ [filenum (data tbl ! index)]\<rparr>)
                           (pgaudit_delete_file tz stack (filenum (data tbl ! index))
                              begtime endtime (d_dir st))
                    else Some st) of
                None \<Rightarrow> None
              | Some st' \<Rightarrow>
                  if index = curidx tbl then Some (Inr st')
                  else if maxnum tbl = 0 then Some (Inl DivisionByZero)
                  else delete_ring tz stack tbl begtime endtime
                         (((index + 1) mod 2 ^ 32) mod maxnum tbl) st')))"

declare delete_ring.simps [code]

definition pg_delete_audit ::
  "fmgr_ctx \<Rightarrow> (int \<Rightarrow> int) \<Rightarrow> byte list \<Rightarrow> AuditIndexTable option \<Rightarrow> audit_dir \<Rightarrow> int \<Rightarrow> int
   \<Rightarrow> (error + delete_result) option"
where
  "pg_delete_audit ctx tz stack indexfile dir begtime endtime =
     (if \<not> has_auditadmin_privilege ctx then Some (Inl PermissionDenied)
      else
        (case indexfile of
           None \<Rightarrow> Some (Inr \<lparr>d_dir = dir, d_opened = []\<rparr>)
         | Some tbl \<Rightarrow>
             if begtime < endtime \<and> count tbl > 0
             then delete_ring tz stack tbl begtime endtime (begidx tbl) \<lparr>d_dir = dir, d_opened = []\<rparr>
             else Some (Inr \<lparr>d_dir = dir, d_opened = []\<rparr>)))"

text \<open>
  A record that the query can read: it holds the fixed part, \<^verbatim>\<open>palloc\<close> takes its
  size, its \<^verbatim>\<open>size\<close> field is its length, its header passes the test of the scan, and
  the walk over its string table stays inside it for each of the ten fields.
\<close>

definition wf_record :: "byte list \<Rightarrow> bool" where
  "wf_record r \<longleftrightarrow>
     AUDIT_HEADER_SIZE \<le> length r \<and> length r \<le> MaxAllocSize \<and> hdr_size r = length r
     \<and> \<not> hdr_invalid r
     \<and> (case collect (map (row_field r) [0..<10]) of Inl e \<Rightarrow> False | Inr fs \<Rightarrow> True)"

subsection \<open>Files of records\<close>



subsection \<open>What the entry points scan\<close>






subsection \<open>Building and stamping a record\<close>

text \<open>
  \<^verbatim>\<open>audit_report\<close> builds a record in a buffer: the fixed part with \<^verbatim>\<open>time\<close> and
  \<^verbatim>\<open>size\<close> zero, then the string fields, each a 32-bit length and, when the string is
  present, its bytes and a terminating zero. The four bytes of padding in the header
  are whatever the stack held. \<^verbatim>\<open>pgaudit_write_file\<close> stamps the time and the byte
  count into the memory it is given, at offsets 8 and 16 from the start of the data;
  \<open>overwrite\<close> is that \<^verbatim>\<open>memcpy_s\<close> on the bytes that the model keeps (a buffer is
  modelled by its valid bytes; what lies behind them is never read before it is
  written again).
\<close>

definition appendStringField :: "byte list option \<Rightarrow> byte list" where
  "appendStringField s =
     (case s of
        None \<Rightarrow> le_bytes 4 0
      | Some str \<Rightarrow> le_bytes 4 ((length str + 1) mod 2 ^ 32) @ str @ [0])"

definition audit_report_buffer ::
  "32 word \<Rightarrow> 32 word \<Rightarrow> 32 word \<Rightarrow> byte list option list \<Rightarrow> byte list"
where
  "audit_report_buffer padding type result flds =
     [0x41, 0x55] @ le_bytes 2 0 @ le_bytes 2 PGAUDIT_QUERY_COLS @ le_bytes 2 AUDIT_TUPLE_NORMAL
     @ le_bytes 8 0 @ le_bytes 4 0 @ le_bytes 4 (unat padding)
     @ le_bytes 4 (unat type) @ le_bytes 4 (unat result)
     @ concat (map appendStringField flds)"

definition overwrite :: "byte list \<Rightarrow> nat \<Rightarrow> byte list \<Rightarrow> byte list" where
  "overwrite buf off bs = take off buf @ take (length buf - off) bs @ drop (off + length bs) buf"

definition stamp :: "int \<Rightarrow> nat \<Rightarrow> nat \<Rightarrow> byte list \<Rightarrow> byte list" where
  "stamp curtime cnt off mem =
     overwrite (overwrite mem (off + 8) (le_bytes 8 (u64 curtime)))
       (off + 16) (le_bytes 4 (cnt mod 2 ^ 32))"

text \<open>
  An example: the record of an internal event with object \<^verbatim>\<open>file\<close>, detail \<^verbatim>\<open>hi\<close> and
  node name \<^verbatim>\<open>dn\<close>, stamped with a time, with the given flags, type and result.
\<close>

definition example_record :: "int \<Rightarrow> 16 word \<Rightarrow> 32 word \<Rightarrow> 32 word \<Rightarrow> byte list" where
  "example_record t flags type result =
     (let b = audit_report_buffer 0 type result
                [None, None, None, None, Some [0x66, 0x69, 0x6C, 0x65], Some [0x68, 0x69],
                 Some [0x64, 0x6E], None, None, None]
      in set_hdr_flags (stamp t (length b) 0 b) (unat flags))"

subsection \<open>The collector\<close>

text \<open>
  The configuration snapshot (the parameters are C \<^verbatim>\<open>int\<close>s) and what the collector
  takes from its surroundings: whether \<^verbatim>\<open>audit_report\<close> lets a record pass
  (\<^verbatim>\<open>Audit_enabled\<close> and the state of the server), the strings it puts into a record
  of its own (with no client port the four session fields and the three port fields are
  absent), the padding bytes of the header on its stack, the outcome of \<^verbatim>\<open>fopen\<close> and
  \<^verbatim>\<open>unlink\<close> per file number, whether \<^verbatim>\<open>fwrite\<close> fails (a failure other than
  \<^verbatim>\<open>ENOSPC\<close>, which the source retries until it passes), and the offset of the
  log time zone at a given time. System calls on \<^verbatim>\<open>index_table\<close> are taken to
  succeed, and so is \<^verbatim>\<open>chmod\<close> on a file that exists; log messages are left out.
\<close>

record audit_config =
  Audit_RotationAge :: int
  Audit_RotationSize :: int
  Audit_SpaceLimit :: int
  Audit_RemainThreshold :: int
  Audit_RemainAge :: int
  Audit_CleanupPolicy :: int

datatype fopen_error = ENFILE | EMFILE | ENOENT | OtherErrno

record audit_env =
  config :: audit_config
  report_enabled :: bool
  hdr_padding :: "32 word"
  session_fields :: "byte list option list"
  PGXCNodeName :: "byte list option"
  port_fields :: "byte list option list"
  fopen_errno :: "nat \<Rightarrow> fopen_error option"
  unlink_fails :: "nat \<Rightarrow> bool"
  fwrite_fails :: bool
  gmtoff :: "int \<Rightarrow> int"

text \<open>
  The state of the collector (\<^verbatim>\<open>t_thrd.audit\<close>), with the audit directory and the
  clock. A file is an inode holding bytes; the directory maps a file number to the inode
  of \<^verbatim>\<open><filenum>_adt\<close>, so that a file that was unlinked while open still takes the
  bytes written to it. \<open>index_table_file\<close> is the table as last written to
  \<^verbatim>\<open>index_table\<close>. \<open>pgaudit_totalspace\<close> and \<open>space_beyond_size\<close> are 64-bit values,
  kept as their unsigned images. \<open>clock\<close> lists the values that \<^verbatim>\<open>time(NULL)\<close> will
  return, in order.
\<close>

record save_buffer =
  sb_pid :: nat
  sb_data :: "byte list"

record audit_state =
  audit_indextbl :: "AuditIndexTable option"
  index_table_file :: "AuditIndexTable option"
  sysauditFile :: "nat option"
  dirents :: "nat \<Rightarrow> nat option"
  inodes :: "nat \<Rightarrow> byte list"
  next_inode :: nat
  pgaudit_totalspace :: nat
  space_beyond_size :: nat
  next_rotation_time :: int
  rotation_requested :: bool
  rotation_disabled :: bool
  clock :: "int list"
  buffer_lists :: "nat \<Rightarrow> save_buffer list"

definition audit_directory :: "audit_state \<Rightarrow> audit_dir" where
  "audit_directory s = (\<lambda>fnum. map_option (inodes s) (dirents s fnum))"

definition pgaudit_update_indexfile :: "audit_state \<Rightarrow> audit_state" where
  "pgaudit_update_indexfile s = s\<lparr>index_table_file := audit_indextbl s\<rparr>"

definition bytes_of :: "string \<Rightarrow> byte list" where
  "bytes_of str = map (\<lambda>c. of_nat (of_char c)) str"

definition AUDIT_INTERNAL_EVENT :: "32 word" where
  "AUDIT_INTERNAL_EVENT = 34"

definition AUDIT_OK :: "32 word" where
  "AUDIT_OK = 1"

definition internal_event_buffer :: "audit_env \<Rightarrow> byte list option \<Rightarrow> byte list option \<Rightarrow> byte list" where
  "internal_event_buffer env object_name detail_info =
     audit_report_buffer (hdr_padding env) AUDIT_INTERNAL_EVENT AUDIT_OK
       (session_fields env @ [object_name, detail_info, PGXCNodeName env] @ port_fields env)"

definition set_last_audit_time :: "int \<Rightarrow> audit_state \<Rightarrow> audit_state" where
  "set_last_audit_time t s =
     s\<lparr>audit_indextbl := map_option (\<lambda>tbl. tbl\<lparr>last_audit_time := t\<rparr>) (audit_indextbl s)\<rparr>"

text \<open>
  \<^verbatim>\<open>pgaudit_write_file(buffer, count)\<close>. The buffer is a place in some memory
  (\<open>mem\<close> at offset \<open>off\<close>): the stamps are written into that memory, which the caller
  goes on using, and \<open>cnt\<close> bytes from there are appended to the open file. When the
  clock reads less than \<open>last_audit_time\<close>, the current slot is marked, the index file
  rewritten, and \<^verbatim>\<open>audit_report\<close> called, which in the collector writes its record through
  this same function before the outer write takes place.
\<close>

definition mark_time_changed :: "int \<Rightarrow> AuditIndexTable \<Rightarrow> AuditIndexTable" where
  "mark_time_changed curtime tbl =
     tbl\<lparr>data := (data tbl)
            [curidx tbl :=
               (let item = data tbl ! curidx tbl
                in if ctime item > 0 then item\<lparr>ctime := - ctime item\<rparr> else item)],
         last_audit_time := curtime\<rparr>"

definition time_changed_event :: "audit_env \<Rightarrow> byte list" where
  "time_changed_event env =
     internal_event_buffer env (Some (bytes_of ''time'')) (Some (bytes_of ''system time changed.''))"

function pgaudit_write_file ::
  "audit_env \<Rightarrow> byte list \<Rightarrow> nat \<Rightarrow> nat \<Rightarrow> audit_state \<Rightarrow> error + (byte list \<times> audit_state)"
where
  "pgaudit_write_file env mem off cnt s =
     (case sysauditFile s of
        None \<Rightarrow> Inr (mem, s)
      | Some ino \<Rightarrow>
          (case clock s of
             [] \<Rightarrow> Inl NoClockReading
           | curtime # later \<Rightarrow>
               (case (case audit_indextbl s of
                        None \<Rightarrow> Inr (s\<lparr>clock := later\<rparr>)
                      | Some tbl \<Rightarrow>
                          if last_audit_time tbl > curtime
                          then
                            if curidx tbl \<ge> length (data tbl) then Inl OutOfBounds
                            else
                              (case (if report_enabled env
                                     then map_sum id snd
                                            (pgaudit_write_file env (time_changed_event env) 0
                                               (length (time_changed_event env))
                                               (pgaudit_update_indexfile
                                                  (s\<lparr>clock := later,
                                                     audit_indextbl :=
                                                       Some (mark_time_changed curtime tbl)\<rparr>)))
                                     else Inr (pgaudit_update_indexfile
                                                 (s\<lparr>clock := later,
                                                    audit_indextbl :=
                                                      Some (mark_time_changed curtime tbl)\<rparr>))) of
                                 Inl e \<Rightarrow> Inl e
                               | Inr s3 \<Rightarrow> Inr (set_last_audit_time curtime s3))
                          else Inr (set_last_audit_time curtime (s\<lparr>clock := later\<rparr>))) of
                  Inl e \<Rightarrow> Inl e
                | Inr s4 \<Rightarrow>
                    if fwrite_fails env then Inl WriteError
                    else Inr (stamp curtime cnt off mem,
                              s4\<lparr>inodes := (inodes s4)
                                   (ino := inodes s4 ino
                                           @ take cnt (drop off (stamp curtime cnt off mem)))\<rparr>))))"
  by pat_completeness auto
termination
  by (relation "measure (\<lambda>(env, mem, off, cnt, s). length (clock s))")
     (auto simp: pgaudit_update_indexfile_def)

declare pgaudit_write_file.simps [simp del]

definition audit_report_internal ::
  "audit_env \<Rightarrow> byte list option \<Rightarrow> byte list option \<Rightarrow> audit_state \<Rightarrow> error + audit_state"
where
  "audit_report_internal env object_name detail_info s =
     (if report_enabled env
      then map_sum id snd
             (pgaudit_write_file env (internal_event_buffer env object_name detail_info) 0
                (length (internal_event_buffer env object_name detail_info)) s)
      else Inr s)"

subsection \<open>The pipe protocol, reader side\<close>

text \<open>
  \<^verbatim>\<open>PipeProtoHeader\<close> occupies 24 bytes: the sentinel at 0, \<^verbatim>\<open>len\<close> at 2, \<^verbatim>\<open>pid\<close> at 8
  and \<^verbatim>\<open>is_last\<close> at 16; the payload starts at 17. \<open>find_slot\<close> is the search of a
  bucket; \<open>save_chunk\<close> stores a non-final chunk; \<open>process_chunk\<close> is the branch of
  the loop for a valid header; \<open>scan_to_nul\<close> is the \<^verbatim>\<open>for\<close> loop that looks for the next
  zero byte, starting behind the first byte.
\<close>

definition sizeof_PipeProtoHeader :: nat where
  "sizeof_PipeProtoHeader = 24"

definition NBUFFER_LISTS :: nat where
  "NBUFFER_LISTS = 256"

definition pipe_len :: "byte list \<Rightarrow> nat" where
  "pipe_len p = le_nat (take 2 (drop 2 p))"

definition pipe_pid :: "byte list \<Rightarrow> nat" where
  "pipe_pid p = le_nat (take 8 (drop 8 p))"

definition pipe_is_last :: "byte list \<Rightarrow> byte" where
  "pipe_is_last p = p ! 16"

definition pipe_header_valid :: "nat option \<Rightarrow> byte list \<Rightarrow> bool" where
  "pipe_header_valid pb p \<longleftrightarrow>
     p ! 0 = 0 \<and> p ! 1 = 0 \<and> pipe_len p > 0 \<and> int (pipe_len p) \<le> PIPE_MAX_PAYLOAD pb
     \<and> pipe_pid p \<noteq> 0 \<and> (pipe_is_last p = 0x74 \<or> pipe_is_last p = 0x66)"

fun find_slot :: "(save_buffer \<Rightarrow> bool) \<Rightarrow> save_buffer list \<Rightarrow> nat option" where
  "find_slot P [] = None"
| "find_slot P (b # bs) = (if P b then Some 0 else map_option Suc (find_slot P bs))"

definition save_chunk :: "nat \<Rightarrow> byte list \<Rightarrow> save_buffer list \<Rightarrow> save_buffer list" where
  "save_chunk p chunk_data bufs =
     (case find_slot (\<lambda>b. sb_pid b = p) bufs of
        Some i \<Rightarrow> bufs[i := (bufs ! i)\<lparr>sb_data := sb_data (bufs ! i) @ chunk_data\<rparr>]
      | None \<Rightarrow>
          (case find_slot (\<lambda>b. sb_pid b = 0) bufs of
             Some i \<Rightarrow> bufs[i := \<lparr>sb_pid = p, sb_data = chunk_data\<rparr>]
           | None \<Rightarrow> bufs @ [\<lparr>sb_pid = p, sb_data = chunk_data\<rparr>]))"

definition process_chunk ::
  "audit_env \<Rightarrow> byte list \<Rightarrow> nat \<Rightarrow> byte list \<Rightarrow> audit_state \<Rightarrow> error + (byte list \<times> audit_state)"
where
  "process_chunk env mem cursor p s =
     (let bucket = pipe_pid p mod NBUFFER_LISTS;
          buffer_list = buffer_lists s bucket;
          chunk_data = take (pipe_len p) (drop (cursor + PIPE_HEADER_SIZE) mem)
      in if pipe_is_last p = 0x66
         then Inr (mem, s\<lparr>buffer_lists := (buffer_lists s)
                             (bucket := save_chunk (pipe_pid p) chunk_data buffer_list)\<rparr>)
         else
           (case find_slot (\<lambda>b. sb_pid b = pipe_pid p) buffer_list of
              Some i \<Rightarrow>
                (case pgaudit_write_file env (sb_data (buffer_list ! i) @ chunk_data) 0
                        (length (sb_data (buffer_list ! i) @ chunk_data)) s of
                   Inl e \<Rightarrow> Inl e
                 | Inr (str, s') \<Rightarrow>
                     Inr (mem, s'\<lparr>buffer_lists := (buffer_lists s')
                                   (bucket := (buffer_lists s' bucket)
                                                [i := \<lparr>sb_pid = 0, sb_data = []\<rparr>])\<rparr>))
            | None \<Rightarrow> pgaudit_write_file env mem (cursor + PIPE_HEADER_SIZE) (pipe_len p) s))"

definition scan_to_nul :: "byte list \<Rightarrow> nat \<Rightarrow> nat \<Rightarrow> nat" where
  "scan_to_nul mem cursor cnt =
     1 + length (takeWhile (\<lambda>b. b \<noteq> 0) (take (cnt - 1) (drop (cursor + 1) mem)))"

function process_pipe_loop ::
  "audit_env \<Rightarrow> nat option \<Rightarrow> byte list \<Rightarrow> nat \<Rightarrow> nat \<Rightarrow> audit_state
   \<Rightarrow> error + (byte list \<times> nat \<times> nat \<times> audit_state)"
where
  "process_pipe_loop env pb mem cursor cnt s =
     (if cnt < sizeof_PipeProtoHeader then Inr (mem, cursor, cnt, s)
      else
        let p = take sizeof_PipeProtoHeader (drop cursor mem)
        in if pipe_header_valid pb p
           then
             let chunklen = PIPE_HEADER_SIZE + pipe_len p
             in if cnt < chunklen then Inr (mem, cursor, cnt, s)
                else
                  (case process_chunk env mem cursor p s of
                     Inl e \<Rightarrow> Inl e
                   | Inr (mem', s') \<Rightarrow>
                       process_pipe_loop env pb mem' (cursor + chunklen) (cnt - chunklen) s')
           else
             let chunklen = scan_to_nul mem cursor cnt
             in (case pgaudit_write_file env mem cursor chunklen s of
                   Inl e \<Rightarrow> Inl e
                 | Inr (mem', s') \<Rightarrow>
                     process_pipe_loop env pb mem' (cursor + chunklen) (cnt - chunklen) s'))"
  by pat_completeness auto
termination
  by (relation "measure (\<lambda>(env, pb, mem, cursor, cnt, s). cnt)")
     (auto simp: sizeof_PipeProtoHeader_def PIPE_HEADER_SIZE_def scan_to_nul_def)

declare process_pipe_loop.simps [simp del]

definition process_pipe_input ::
  "audit_env \<Rightarrow> nat option \<Rightarrow> byte list \<Rightarrow> audit_state \<Rightarrow> error + (byte list \<times> audit_state)"
where
  "process_pipe_input env pb auditbuffer s =
     (case process_pipe_loop env pb auditbuffer 0 (length auditbuffer) s of
        Inl e \<Rightarrow> Inl e
      | Inr (mem, cursor, cnt, s') \<Rightarrow> Inr (take cnt (drop cursor mem), s'))"

subsection \<open>Rotation\<close>

text \<open>
  \<^verbatim>\<open>auditfile_close\<close>, \<^verbatim>\<open>auditfile_open\<close> (always called with mode \<^verbatim>\<open>"a"\<close>; it
  returns the handle, or \<^verbatim>\<open>errno\<close> as it stands when the function returns without one),
  \<^verbatim>\<open>set_next_rotation_time\<close> and \<^verbatim>\<open>auditfile_rotate\<close>. When \<^verbatim>\<open>fopen\<close> fails on a file
  that \<^verbatim>\<open>stat\<close> did not find, \<^verbatim>\<open>auditfile_open\<close> still calls \<^verbatim>\<open>chmod\<close> on it, which
  fails and leaves \<^verbatim>\<open>ENOENT\<close> in \<^verbatim>\<open>errno\<close> in place of the value of \<^verbatim>\<open>fopen\<close>. \<open>c_rem\<close>
  is the remainder of C, which truncates; \<open>s32\<close> is the value that a product has as a C
  \<^verbatim>\<open>int\<close> (\<^verbatim>\<open>rotinterval\<close> is one), with the wrap-around written out.
\<close>

definition u32 :: "int \<Rightarrow> nat" where
  "u32 i = nat (i mod 2 ^ 32)"

definition AUDIT_COUNT :: "AuditIndexTable \<Rightarrow> nat" where
  "AUDIT_COUNT tbl =
     (if curidx tbl \<ge> begidx tbl then (curidx tbl - begidx tbl + 1) mod 2 ^ 32
      else u32 (int (curidx tbl) + int (maxnum tbl) + 1 - int (begidx tbl)))"

definition ftell :: "audit_state \<Rightarrow> nat \<Rightarrow> nat" where
  "ftell s ino = length (inodes s ino)"

definition auditfile_close :: "audit_state \<Rightarrow> error + audit_state" where
  "auditfile_close s =
     (case sysauditFile s of
        None \<Rightarrow> Inr s
      | Some ino \<Rightarrow>
          (case audit_indextbl s of
             None \<Rightarrow> Inr (s\<lparr>sysauditFile := None\<rparr>)
           | Some tbl \<Rightarrow>
               if curidx tbl \<ge> length (data tbl) then Inl OutOfBounds
               else if maxnum tbl = 0 then Inl DivisionByZero
               else
                 let item = (data tbl ! curidx tbl)\<lparr>filesize := ftell s ino mod 2 ^ 32\<rparr>;
                     fnum = (filenum item + 1) mod 2 ^ 32;
                     data1 = (data tbl)[curidx tbl := item];
                     newidx = ((curidx tbl + 1) mod 2 ^ 32) mod maxnum tbl
                 in if newidx \<ge> length data1 then Inl OutOfBounds
                    else
                      Inr (s\<lparr>pgaudit_totalspace := (pgaudit_totalspace s + filesize item) mod 2 ^ 64,
                             audit_indextbl := Some
                               (tbl\<lparr>curidx := newidx,
                                    data := data1[newidx := (data1 ! newidx)\<lparr>filenum := fnum\<rparr>]\<rparr>),
                             sysauditFile := None\<rparr>)))"

definition fopen_append :: "nat \<Rightarrow> audit_state \<Rightarrow> nat \<times> audit_state" where
  "fopen_append fnum s =
     (case dirents s fnum of
        Some ino \<Rightarrow> (ino, s)
      | None \<Rightarrow>
          (next_inode s,
           s\<lparr>dirents := (dirents s)(fnum \<mapsto> next_inode s),
              inodes := (inodes s)(next_inode s := []),
              next_inode := next_inode s + 1\<rparr>))"

definition auditfile_open ::
  "audit_env \<Rightarrow> int \<Rightarrow> bool \<Rightarrow> audit_state \<Rightarrow> error + ((fopen_error + nat) \<times> audit_state)"
where
  "auditfile_open env timestamp allow_errors s =
     (case (case audit_indextbl s of
              None \<Rightarrow> Inr 0
            | Some tbl \<Rightarrow>
                if curidx tbl \<ge> length (data tbl) then Inl OutOfBounds
                else Inr (filenum (data tbl ! curidx tbl))) of
        Inl e \<Rightarrow> Inl e
      | Inr fnum \<Rightarrow>
          let exist = (dirents s fnum \<noteq> None)
          in (case fopen_errno env fnum of
                Some errno \<Rightarrow>
                  if allow_errors then Inr (Inl (if exist then errno else ENOENT), s)
                  else Inl Fatal
              | None \<Rightarrow>
                  (case fopen_append fnum s of
                     (ino, s1) \<Rightarrow>
                       Inr (Inr ino,
                            (case audit_indextbl s1 of
                               None \<Rightarrow> s1
                             | Some tbl \<Rightarrow>
                                 let tbl1 = (if \<not> exist
                                             then tbl\<lparr>data := (data tbl)
                                                    [curidx tbl := (data tbl ! curidx tbl)\<lparr>ctime := timestamp\<rparr>]\<rparr>
                                             else tbl)
                                 in pgaudit_update_indexfile
                                      (s1\<lparr>audit_indextbl := Some (tbl1\<lparr>count := AUDIT_COUNT tbl1\<rparr>)\<rparr>))))))"

definition SECS_PER_MINUTE :: int where
  "SECS_PER_MINUTE = 60"

definition SECS_PER_DAY :: int where
  "SECS_PER_DAY = 86400"

definition c_rem :: "int \<Rightarrow> int \<Rightarrow> int" where
  "c_rem a b = sgn a * (\<bar>a\<bar> mod \<bar>b\<bar>)"

definition s32 :: "int \<Rightarrow> int" where
  "s32 i = (i + 2 ^ 31) mod 2 ^ 32 - 2 ^ 31"

definition set_next_rotation_time :: "audit_env \<Rightarrow> audit_state \<Rightarrow> error + audit_state" where
  "set_next_rotation_time env s =
     (if Audit_RotationAge (config env) \<le> 0 then Inr s
      else
        (case clock s of
           [] \<Rightarrow> Inl NoClockReading
         | t # later \<Rightarrow>
             let rotinterval = s32 (Audit_RotationAge (config env) * SECS_PER_MINUTE);
                 now1 = t + gmtoff env t
             in if rotinterval = 0 then Inl DivisionByZero
                else
                  let now2 = now1 - c_rem now1 rotinterval;
                      now3 = now2 + rotinterval
                  in Inr (s\<lparr>clock := later, next_rotation_time := now3 - gmtoff env t\<rparr>)))"

definition auditfile_rotate ::
  "audit_env \<Rightarrow> bool \<Rightarrow> bool \<Rightarrow> audit_state \<Rightarrow> error + audit_state"
where
  "auditfile_rotate env time_based_rotation size_based_rotation s =
     (case (if time_based_rotation
            then Inr (next_rotation_time s, s\<lparr>rotation_requested := False\<rparr>)
            else (case clock s of
                    [] \<Rightarrow> Inl NoClockReading
                  | t # later \<Rightarrow> Inr (t, s\<lparr>rotation_requested := False, clock := later\<rparr>))) of
        Inl e \<Rightarrow> Inl e
      | Inr (fntime, s1) \<Rightarrow>
          if time_based_rotation \<or> size_based_rotation
          then
            (case auditfile_close s1 of
               Inl e \<Rightarrow> Inl e
             | Inr s2 \<Rightarrow>
                 (case auditfile_open env fntime True s2 of
                    Inl e \<Rightarrow> Inl e
                  | Inr (Inl errno, s3) \<Rightarrow>
                      Inr (if errno \<noteq> ENFILE \<and> errno \<noteq> EMFILE
                           then s3\<lparr>rotation_disabled := True\<rparr> else s3)
                  | Inr (Inr fh, s3) \<Rightarrow>
                      (case audit_report_internal env (Some (bytes_of ''file''))
                              (Some (bytes_of ''create a new audit file''))
                              (s3\<lparr>sysauditFile := Some fh\<rparr>) of
                         Inl e \<Rightarrow> Inl e
                       | Inr s4 \<Rightarrow> set_next_rotation_time env s4)))
          else set_next_rotation_time env s1)"

text \<open>
  The rotation check of one pass of the main loop of \<^verbatim>\<open>PgAuditorMain\<close>: it reads
  the clock when time-based rotation is on, asks for a time-based rotation when the
  planned time has come, otherwise for a size-based one when the open file has reached
  the rotation size or the space limit, and rotates when a rotation is asked for, by
  itself or by a signal before. \<^verbatim>\<open>ftell\<close> on a file that is not open is an access
  outside an object.
\<close>

definition PgAuditorMain_rotation :: "audit_env \<Rightarrow> audit_state \<Rightarrow> error + audit_state" where
  "PgAuditorMain_rotation env s =
     (case (if Audit_RotationAge (config env) > 0 \<and> \<not> rotation_disabled s
            then (case clock s of
                    [] \<Rightarrow> Inl NoClockReading
                  | now # later \<Rightarrow>
                      if now \<ge> next_rotation_time s
                      then Inr (True, s\<lparr>clock := later, rotation_requested := True\<rparr>)
                      else Inr (False, s\<lparr>clock := later\<rparr>))
            else Inr (False, s)) of
        Inl e \<Rightarrow> Inl e
      | Inr (time_based_rotation, s1) \<Rightarrow>
          (case (if \<not> rotation_requested s1 \<and> Audit_RotationSize (config env) > 0
                    \<and> \<not> rotation_disabled s1
                 then (case sysauditFile s1 of
                         None \<Rightarrow> Inl OutOfBounds
                       | Some ino \<Rightarrow>
                           if int (ftell s1 ino) \<ge> Audit_RotationSize (config env) * 1024
                              \<or> int (ftell s1 ino) \<ge> Audit_SpaceLimit (config env) * 1024
                           then Inr (True, s1\<lparr>rotation_requested := True\<rparr>)
                           else Inr (False, s1))
                 else Inr (False, s1)) of
             Inl e \<Rightarrow> Inl e
           | Inr (size_based_rotation, s2) \<Rightarrow>
               if rotation_requested s2
               then auditfile_rotate env time_based_rotation
                      (size_based_rotation \<or> (\<not> time_based_rotation \<and> \<not> size_based_rotation)) s2
               else Inr s2))"

subsection \<open>Retention\<close>

text \<open>
  \<^verbatim>\<open>pgaudit_cleanup\<close>. \<open>cleanup_condition\<close> is the test of the \<^verbatim>\<open>while\<close> loop,
  \<open>cleanup_body\<close> one pass through its body up to the decision to keep the oldest
  file, and \<open>cleanup_remove\<close> the rest of the pass, from the \<^verbatim>\<open>unlink\<close> on. A pass ends
  the loop (\<open>Break\<close>) or hands the next index on (\<open>Continue\<close>). \<open>decimal\<close> prints the
  file number for the record that reports the removal.
\<close>

definition SPACE_INTERVAL_SIZE :: nat where
  "SPACE_INTERVAL_SIZE = 10 * 1024 * 1024"

definition SPACE_MAXIMUM_SIZE :: nat where
  "SPACE_MAXIMUM_SIZE = 1024 * 1024 * 1024 * 1024"

function decimal :: "nat \<Rightarrow> byte list" where
  "decimal n = (if n < 10 then [of_nat (48 + n)] else decimal (n div 10) @ [of_nat (48 + n mod 10)])"
  by pat_completeness auto
termination
  by (relation "measure id") auto

declare decimal.simps [simp del]

definition cleanup_condition :: "audit_env \<Rightarrow> nat \<Rightarrow> audit_state \<Rightarrow> AuditIndexTable \<Rightarrow> bool" where
  "cleanup_condition env fsize s tbl \<longleftrightarrow>
     (pgaudit_totalspace s + fsize) mod 2 ^ 64 \<ge> u64 (Audit_SpaceLimit (config env) * 1024)
     \<or> count tbl > u32 (Audit_RemainThreshold (config env))"

definition cleanup_remove ::
  "audit_env \<Rightarrow> nat \<Rightarrow> audit_state \<Rightarrow> AuditIndexTable \<Rightarrow> error + (nat \<times> audit_state) loop"
where
  "cleanup_remove env index s tbl =
     (let item = data tbl ! index
      in if dirents s (filenum item) \<noteq> None \<and> unlink_fails env (filenum item)
         then Inr (Break (index, s))
         else if maxnum tbl = 0 then Inl DivisionByZero
         else
           let tbl1 = tbl\<lparr>count := (if count tbl > 0 then count tbl - 1 else count tbl),
                          begidx := ((index + 1) mod 2 ^ 32) mod maxnum tbl,
                          data := (data tbl)[index := \<lparr>ctime = 0, filenum = 0, filesize = 0\<rparr>]\<rparr>;
               s1 = pgaudit_update_indexfile
                      (s\<lparr>dirents := (dirents s)(filenum item := None),
                         pgaudit_totalspace :=
                           (pgaudit_totalspace s + 2 ^ 64 - filesize item) mod 2 ^ 64,
                         audit_indextbl := Some tbl1\<rparr>)
           in (case audit_report_internal env (Some (bytes_of ''file''))
                       (Some (bytes_of ''remove an audit file(number: '' @ decimal (filenum item)
                              @ bytes_of '')''))
                       s1 of
                 Inl e \<Rightarrow> Inl e
               | Inr s2 \<Rightarrow>
                   (case audit_indextbl s2 of
                      None \<Rightarrow> Inl OutOfBounds
                    | Some tbl2 \<Rightarrow>
                        if index = curidx tbl2 then Inr (Break (index, s2))
                        else Inr (Continue (begidx tbl2, s2)))))"

definition cleanup_body ::
  "audit_env \<Rightarrow> nat \<Rightarrow> nat \<Rightarrow> audit_state \<Rightarrow> AuditIndexTable \<Rightarrow> error + (nat \<times> audit_state) loop"
where
  "cleanup_body env fsize index s tbl =
     (let remain_time = Audit_RemainAge (config env) * SECS_PER_DAY
      in if index \<ge> length (data tbl) then Inl OutOfBounds
         else if count tbl \<le> u32 (Audit_RemainThreshold (config env))
                 \<and> Audit_CleanupPolicy (config env) = 0 \<and> remain_time \<noteq> 0
                 \<and> (pgaudit_totalspace s + fsize) mod 2 ^ 64 \<le> SPACE_MAXIMUM_SIZE
         then
           let s1 = (if u64 (int ((pgaudit_totalspace s + fsize) mod 2 ^ 64)
                               - Audit_SpaceLimit (config env) * 1024)
                        \<ge> space_beyond_size s
                     then s\<lparr>space_beyond_size := (space_beyond_size s + SPACE_INTERVAL_SIZE) mod 2 ^ 64\<rparr>
                     else s)
           in if maxnum tbl = 0 then Inl DivisionByZero
              else if ((index + 1) mod 2 ^ 32) mod maxnum tbl \<ge> length (data tbl) then Inl OutOfBounds
              else if remain_time \<ge> last_audit_time tbl - ctime (data tbl ! index)
                      \<or> remain_time > last_audit_time tbl
                                       - ctime (data tbl ! (((index + 1) mod 2 ^ 32) mod maxnum tbl))
              then Inr (Break (index, s1))
              else cleanup_remove env index s1 tbl
         else cleanup_remove env index s tbl)"

partial_function (option) cleanup_loop ::
  "audit_env \<Rightarrow> nat \<Rightarrow> nat \<Rightarrow> audit_state \<Rightarrow> (error + audit_state) option"
where
  "cleanup_loop env fsize index s =
     (case audit_indextbl s of
        None \<Rightarrow> Some (Inl OutOfBounds)
      | Some tbl \<Rightarrow>
          if cleanup_condition env fsize s tbl
          then (case cleanup_body env fsize index s tbl of
                  Inl e \<Rightarrow> Some (Inl e)
                | Inr (Break (i, s')) \<Rightarrow> Some (Inr s')
                | Inr (Continue (i, s')) \<Rightarrow> cleanup_loop env fsize i s')
          else Some (Inr s))"

declare cleanup_loop.simps [code]

definition pgaudit_cleanup :: "audit_env \<Rightarrow> audit_state \<Rightarrow> (error + audit_state) option" where
  "pgaudit_cleanup env s =
     (case audit_indextbl s of
        None \<Rightarrow> Some (Inr s)
      | Some tbl \<Rightarrow>
          cleanup_loop env (case sysauditFile s of None \<Rightarrow> 0 | Some ino \<Rightarrow> ftell s ino)
            (begidx tbl) s)"

subsection \<open>An example collector\<close>

text \<open>
  A collector with a table of four slots, one file (\<^verbatim>\<open>0_adt\<close>, empty, open) created at
  800, the last record written at 900, and a clock that reads 1000, 1001, 1002; and
  what the theorems read off a state or a result.
\<close>

definition example_env :: audit_env where
  "example_env =
     \<lparr>config = \<lparr>Audit_RotationAge = 1440, Audit_RotationSize = 10240, Audit_SpaceLimit = 1024,
                 Audit_RemainThreshold = 3, Audit_RemainAge = 0, Audit_CleanupPolicy = 1\<rparr>,
      report_enabled = True, hdr_padding = 0,
      session_fields = [None, None, None, None], PGXCNodeName = Some (bytes_of ''dn''),
      port_fields = [None, None, None],
      fopen_errno = (\<lambda>n. None), unlink_fails = (\<lambda>n. False), fwrite_fails = False,
      gmtoff = (\<lambda>t. 0)\<rparr>"

definition example_state :: audit_state where
  "example_state =
     \<lparr>audit_indextbl = Some \<lparr>maxnum = 4, begidx = 0, curidx = 0, count = 1, last_audit_time = 900,
                              data = [\<lparr>ctime = 800, filenum = 0, filesize = 0\<rparr>,
                                      \<lparr>ctime = 0, filenum = 0, filesize = 0\<rparr>,
                                      \<lparr>ctime = 0, filenum = 0, filesize = 0\<rparr>,
                                      \<lparr>ctime = 0, filenum = 0, filesize = 0\<rparr>]\<rparr>,
      index_table_file = None,
      sysauditFile = Some 0, dirents = (\<lambda>n. if n = 0 then Some 0 else None),
      inodes = (\<lambda>i. []), next_inode = 1,
      pgaudit_totalspace = 0, space_beyond_size = 10485760,
      next_rotation_time = 86400, rotation_requested = False, rotation_disabled = False,
      clock = [1000, 1001, 1002], buffer_lists = (\<lambda>b. [])\<rparr>"

definition current_slot :: "audit_state \<Rightarrow> AuditIndexItem option" where
  "current_slot s = map_option (\<lambda>tbl. data tbl ! curidx tbl) (audit_indextbl s)"



subsection \<open>Examples for rotation and retention\<close>

text \<open>
  The state a call ends in; a file of 2000000 bytes, above the space limit of 1024 KB
  of the example; the directory entry of a file number; and a collector under the
  time-priority policy with a retention age of one day, whose table holds an old file
  \<^verbatim>\<open>0_adt\<close> created at 100 and the open file \<^verbatim>\<open>1_adt\<close>, the last record written at
  250000.
\<close>

definition result_state :: "error + audit_state \<Rightarrow> audit_state option" where
  "result_state r = (case r of Inl e \<Rightarrow> None | Inr s \<Rightarrow> Some s)"

definition big_file :: "byte list" where
  "big_file = replicate 2000000 0x78"

definition dirent :: "nat \<Rightarrow> audit_state \<Rightarrow> nat option" where
  "dirent fnum s = dirents s fnum"

definition retention_env :: audit_env where
  "retention_env =
     example_env\<lparr>config := (config example_env)\<lparr>Audit_RemainAge := 1, Audit_CleanupPolicy := 0\<rparr>\<rparr>"

definition retention_state :: "int \<Rightarrow> audit_state" where
  "retention_state next_ctime =
     example_state
       \<lparr>audit_indextbl := Some
          \<lparr>maxnum = 4, begidx = 0, curidx = 1, count = 2, last_audit_time = 250000,
           data = [\<lparr>ctime = 100, filenum = 0, filesize = 2000000\<rparr>,
                   \<lparr>ctime = next_ctime, filenum = 1, filesize = 0\<rparr>,
                   \<lparr>ctime = 0, filenum = 0, filesize = 0\<rparr>,
                   \<lparr>ctime = 0, filenum = 0, filesize = 0\<rparr>]\<rparr>,
        sysauditFile := Some 1,
        dirents := (dirents example_state)(1 \<mapsto> 1),
        inodes := (inodes example_state)(0 := big_file),
        next_inode := 2,
        pgaudit_totalspace := 2000000,
        clock := [250001, 250002, 250003]\<rparr>"

subsection \<open>Examples for the entry points\<close>







section \<open>Theorems\<close>

subsection \<open>Producer side of the pipe protocol\<close>

lemma write_chunks_loop_more:
  "PIPE_MAX_PAYLOAD pb < int (length d) \<Longrightarrow>
   write_chunks_loop pb mypid d pipe =
     write_chunks_loop pb mypid (drop (nat (PIPE_MAX_PAYLOAD pb)) d)
       (pipe @ [\<lparr>nuls = [0, 0], len = word_of_int (PIPE_MAX_PAYLOAD pb), pid = mypid,
                 is_last = 0x66, payload = take (nat (PIPE_MAX_PAYLOAD pb)) d\<rparr>])"
  by (subst write_chunks_loop.simps) simp

lemma write_chunks_loop_done:
  "\<not> PIPE_MAX_PAYLOAD pb < int (length d) \<Longrightarrow>
   write_chunks_loop pb mypid d pipe = Some (d, pipe)"
  by (subst write_chunks_loop.simps) simp

lemma PIPE_MAX_PAYLOAD_small: "PIPE_MAX_PAYLOAD pb < 65536"
  by (simp add: PIPE_MAX_PAYLOAD_def PIPE_CHUNK_SIZE_def PIPE_HEADER_SIZE_def
      split: option.splits)

lemma write_chunks_loop_spec:
  assumes P: "0 < PIPE_MAX_PAYLOAD pb"
  shows "\<exists>cs d'. write_chunks_loop pb mypid d pipe = Some (d', pipe @ cs)
           \<and> concat (map payload cs) @ d' = d
           \<and> int (length d') \<le> PIPE_MAX_PAYLOAD pb
           \<and> (d \<noteq> [] \<longrightarrow> d' \<noteq> [])
           \<and> int (length cs) * PIPE_MAX_PAYLOAD pb + int (length d') = int (length d)
           \<and> (\<forall>c \<in> set cs. is_last c = 0x66 \<and> int (length (payload c)) = PIPE_MAX_PAYLOAD pb
                  \<and> nuls c = [0, 0] \<and> pid c = mypid \<and> unat (len c) = length (payload c))"
proof (induction "length d" arbitrary: d pipe rule: less_induct)
  case less
  show ?case
  proof (cases "PIPE_MAX_PAYLOAD pb < int (length d)")
    case False
    then show ?thesis
      by (intro exI [of _ "[]"] exI [of _ d]) (simp add: write_chunks_loop_done)
  next
    case True
    define p where "p = nat (PIPE_MAX_PAYLOAD pb)"
    define c where "c = \<lparr>nuls = [0, 0], len = word_of_int (PIPE_MAX_PAYLOAD pb) :: 16 word,
      pid = mypid, is_last = 0x66 :: byte, payload = take p d\<rparr>"
    have p: "0 < p" "int p = PIPE_MAX_PAYLOAD pb" "p < length d" "p < 65536"
      using P True PIPE_MAX_PAYLOAD_small [of pb] by (auto simp: p_def)
    have shorter: "length (drop p d) < length d"
      using p by simp
    from less [OF shorter, of "pipe @ [c]"]
    obtain cs d' where IH:
      "write_chunks_loop pb mypid (drop p d) (pipe @ [c]) = Some (d', (pipe @ [c]) @ cs)"
      "concat (map payload cs) @ d' = drop p d"
      "int (length d') \<le> PIPE_MAX_PAYLOAD pb"
      "d' \<noteq> []"
      "int (length cs) * PIPE_MAX_PAYLOAD pb + int (length d') = int (length (drop p d))"
      "\<forall>c \<in> set cs. is_last c = 0x66 \<and> int (length (payload c)) = PIPE_MAX_PAYLOAD pb
                  \<and> nuls c = [0, 0] \<and> pid c = mypid \<and> unat (len c) = length (payload c)"
      using p by auto
    have step: "write_chunks_loop pb mypid d pipe = Some (d', pipe @ (c # cs))"
      using write_chunks_loop_more [OF True, of mypid pipe] IH(1) by (simp add: c_def p_def)
    have len_c: "unat (len c) = length (payload c)"
    proof -
      have "unat (word_of_int (int p) :: 16 word) = p"
        using p(4) by (simp add: unat_of_nat)
      then show ?thesis using p by (simp add: c_def)
    qed
    have whole: "concat (map payload (c # cs)) @ d' = d"
      using IH(2) by (simp add: c_def)
    have count: "int (length (c # cs)) * PIPE_MAX_PAYLOAD pb + int (length d') = int (length d)"
      using IH(5) p by (simp add: algebra_simps)
    have each: "\<forall>x \<in> set (c # cs). is_last x = 0x66 \<and> int (length (payload x)) = PIPE_MAX_PAYLOAD pb
                  \<and> nuls x = [0, 0] \<and> pid x = mypid \<and> unat (len x) = length (payload x)"
      using IH(6) len_c p by (auto simp: c_def)
    show ?thesis
      using step whole count each IH(3,4) by blast
  qed
qed

text \<open>
  Claim C7. A payload of \<open>L > 0\<close> bytes is sent as \<open>\<lceil>L / PIPE_MAX_PAYLOAD\<rceil>\<close> chunks, appended
  to the pipe in order; their payloads concatenate to the payload; every chunk but the
  last has \<open>is_last = 'f'\<close> (0x66) and a payload of \<open>PIPE_MAX_PAYLOAD\<close> bytes, the last has
  \<open>is_last = 't'\<close> (0x74); every chunk carries the sentinel, the producer's id and its
  payload length.
\<close>

theorem write_pipe_chunks_spec:
  assumes "0 < PIPE_MAX_PAYLOAD pb" and "d \<noteq> []"
  shows "\<exists>cs. write_pipe_chunks pb mypid d pipe = Some (pipe @ cs)
           \<and> int (length cs) = (int (length d) + PIPE_MAX_PAYLOAD pb - 1) div PIPE_MAX_PAYLOAD pb
           \<and> concat (map payload cs) = d
           \<and> (\<forall>c \<in> set (butlast cs).
                  is_last c = 0x66 \<and> int (length (payload c)) = PIPE_MAX_PAYLOAD pb)
           \<and> is_last (last cs) = 0x74
           \<and> (\<forall>c \<in> set cs. nuls c = [0, 0] \<and> pid c = mypid \<and> unat (len c) = length (payload c))"
proof -
  from write_chunks_loop_spec [OF assms(1), of mypid d pipe] assms(2)
  obtain cs d' where L:
    "write_chunks_loop pb mypid d pipe = Some (d', pipe @ cs)"
    "concat (map payload cs) @ d' = d"
    "int (length d') \<le> PIPE_MAX_PAYLOAD pb"
    "d' \<noteq> []"
    "int (length cs) * PIPE_MAX_PAYLOAD pb + int (length d') = int (length d)"
    "\<forall>c \<in> set cs. is_last c = 0x66 \<and> int (length (payload c)) = PIPE_MAX_PAYLOAD pb
                  \<and> nuls c = [0, 0] \<and> pid c = mypid \<and> unat (len c) = length (payload c)"
    by auto
  define t where "t = \<lparr>nuls = [0, 0], len = of_nat (length d') :: 16 word, pid = mypid,
                          is_last = 0x74 :: byte, payload = d'\<rparr>"
  have res: "write_pipe_chunks pb mypid d pipe = Some (pipe @ (cs @ [t]))"
    using L(1) by (simp add: write_pipe_chunks_def t_def)
  have "length d' < 65536"
    using L(3) PIPE_MAX_PAYLOAD_small [of pb] by simp
  then have len_t: "unat (len t) = length (payload t)"
    by (simp add: t_def unat_of_nat)
  have r: "0 < int (length d')" using L(4) by simp
  have "(int (length d) + PIPE_MAX_PAYLOAD pb - 1) div PIPE_MAX_PAYLOAD pb
        = (int (length d') + PIPE_MAX_PAYLOAD pb - 1 + int (length cs) * PIPE_MAX_PAYLOAD pb)
            div PIPE_MAX_PAYLOAD pb"
    using L(5) by (simp add: algebra_simps)
  also have "\<dots> = (int (length d') + PIPE_MAX_PAYLOAD pb - 1) div PIPE_MAX_PAYLOAD pb
                  + int (length cs)"
    using assms(1) by simp
  also have "(int (length d') + PIPE_MAX_PAYLOAD pb - 1) div PIPE_MAX_PAYLOAD pb = 1"
    using r L(3) assms(1) by (intro int_div_pos_eq [where r = "int (length d') - 1"]) auto
  finally have cnt: "int (length (cs @ [t])) =
      (int (length d) + PIPE_MAX_PAYLOAD pb - 1) div PIPE_MAX_PAYLOAD pb"
    by simp
  have whole: "concat (map payload (cs @ [t])) = d"
    using L(2) by (simp add: t_def)
  have init: "\<forall>c \<in> set (butlast (cs @ [t])).
                  is_last c = 0x66 \<and> int (length (payload c)) = PIPE_MAX_PAYLOAD pb"
    using L(6) by simp
  have lastc: "is_last (last (cs @ [t])) = 0x74"
    by (simp add: t_def)
  have each: "\<forall>c \<in> set (cs @ [t]). nuls c = [0, 0] \<and> pid c = mypid \<and> unat (len c) = length (payload c)"
    using L(6) len_t by (auto simp: t_def)
  show ?thesis
    using res cnt whole init lastc each by blast
qed

theorem write_pipe_chunks_spec_witness:
  "0 < PIPE_MAX_PAYLOAD (Some 20) \<and> [1, 2, 3, 4, 5, 6, 7 :: byte] \<noteq> [] \<and>
   (\<exists>cs. write_pipe_chunks (Some 20) 7 [1, 2, 3, 4, 5, 6, 7] [] = Some cs
      \<and> length cs = 3 \<and> concat (map payload cs) = [1, 2, 3, 4, 5, 6, 7]
      \<and> is_last (last cs) = 0x74)"
proof -
  have h: "0 < PIPE_MAX_PAYLOAD (Some 20)"
    by (simp add: PIPE_MAX_PAYLOAD_def PIPE_CHUNK_SIZE_def PIPE_HEADER_SIZE_def)
  have v: "PIPE_MAX_PAYLOAD (Some 20) = 3"
    by (simp add: PIPE_MAX_PAYLOAD_def PIPE_CHUNK_SIZE_def PIPE_HEADER_SIZE_def)
  from write_pipe_chunks_spec [OF h, of "[1, 2, 3, 4, 5, 6, 7]" 7 "[]"]
  obtain cs where
    "write_pipe_chunks (Some 20) 7 [1, 2, 3, 4, 5, 6, 7] [] = Some cs"
    "int (length cs) = (7 + PIPE_MAX_PAYLOAD (Some 20) - 1) div PIPE_MAX_PAYLOAD (Some 20)"
    "concat (map payload cs) = [1, 2, 3, 4, 5, 6, 7]"
    "is_last (last cs) = 0x74"
    by auto
  then show ?thesis using h v by auto
qed

subsection \<open>Record headers\<close>

lemma le_bytes_2: "le_bytes 2 v = [of_nat (v mod 256), of_nat (v div 256 mod 256)]"
  by (simp add: numeral_2_eq_2)

lemma hdr_append:
  assumes "length h = 24"
  shows "hdr_signature (h @ b) = hdr_signature h"
    and "hdr_version (h @ b) = hdr_version h"
    and "hdr_fields (h @ b) = hdr_fields h"
    and "hdr_flags (h @ b) = hdr_flags h"
    and "hdr_time (h @ b) = hdr_time h"
    and "hdr_size (h @ b) = hdr_size h"
  using assms
  by (simp_all add: hdr_signature_def hdr_version_def hdr_fields_def hdr_flags_def
      hdr_time_def hdr_size_def)

lemma hdr_invalid_append: "length h = 24 \<Longrightarrow> hdr_invalid (h @ b) = hdr_invalid h"
  by (simp add: hdr_invalid_def hdr_append)

lemma hdr_selected_append:
  "length h = 24 \<Longrightarrow> hdr_selected tz b e (h @ x) = hdr_selected tz b e h"
  by (simp add: hdr_selected_def hdr_append)










subsection \<open>The delete scan\<close>








subsection \<open>The query scan\<close>

lemma mk_row_wf:
  assumes "wf_record r"
  shows "mk_row tz r = Inr (projr (mk_row tz r))"
proof -
  have "32 \<le> length r"
    using assms by (simp add: wf_record_def AUDIT_HEADER_SIZE_def)
  moreover obtain fs where "collect (map (row_field r) [0..<10]) = Inr fs"
    using assms by (auto simp: wf_record_def split: sum.splits)
  ultimately show ?thesis
    by (simp add: mk_row_def adata_type_def adata_result_def)
qed

lemma wf_record_header:
  assumes "wf_record r"
  obtains h body where "r = h @ body" "length h = 24" "hdr_size h = 24 + length body"
    "8 \<le> length body" "\<not> hdr_invalid h" "24 + length body \<le> MaxAllocSize"
proof -
  have len: "32 \<le> length r" and sz: "hdr_size r = length r" and v: "\<not> hdr_invalid r"
    and m: "length r \<le> MaxAllocSize"
    using assms by (simp_all add: wf_record_def AUDIT_HEADER_SIZE_def)
  have l: "length (take 24 r) = 24" using len by simp
  have "hdr_size (take 24 r) = hdr_size (take 24 r @ drop 24 r)"
    by (rule hdr_append(6) [OF l, symmetric])
  also have "\<dots> = hdr_size r" by simp
  also have "\<dots> = length r" by (rule sz)
  also have "\<dots> = 24 + length (drop 24 r)" using len by simp
  finally have s: "hdr_size (take 24 r) = 24 + length (drop 24 r)" .
  have "hdr_invalid (take 24 r) = hdr_invalid (take 24 r @ drop 24 r)"
    by (rule hdr_invalid_append [OF l, symmetric])
  then have i: "\<not> hdr_invalid (take 24 r)"
    using v by simp
  show thesis
    using that [of "take 24 r" "drop 24 r"] l s i len m by simp
qed

lemma query_loop_end:
  "length f \<le> p \<Longrightarrow> query_loop tz b e f p rows = Inr rows"
  by (subst query_loop.simps) (simp add: sizeof_AuditMsgHdr_def)

lemma query_loop_record:
  assumes "length h = 24" and "hdr_size h = 24 + length body" and "8 \<le> length body"
    and "\<not> hdr_invalid h" and "24 + length body \<le> MaxAllocSize"
  shows "query_loop tz b e (pre @ h @ body @ post) (length pre) rows =
    (if hdr_selected tz b e h
     then (case mk_row tz (h @ body) of
             Inl er \<Rightarrow> Inl er
           | Inr row \<Rightarrow> query_loop tz b e (pre @ h @ body @ post)
                         (length pre + (24 + length body)) (rows @ [row]))
     else query_loop tz b e (pre @ h @ body @ post) (length pre + (24 + length body)) rows)"
proof -
  have ne: "body \<noteq> []" using assms(3) by auto
  show ?thesis
    using assms ne
    by (subst query_loop.simps) (simp add: sizeof_AuditMsgHdr_def Let_def cong: sum.case_cong)
qed

lemma query_loop_records:
  assumes "\<forall>r \<in> set rs. wf_record r"
  shows "query_loop tz b e (pre @ concat rs) (length pre) rows =
           Inr (rows @ map (\<lambda>r. projr (mk_row tz r)) (filter (hdr_selected tz b e) rs))"
  using assms
proof (induction rs arbitrary: pre rows)
  case Nil
  show ?case by (simp add: query_loop_end)
next
  case (Cons r rs)
  from Cons.prems have wf: "wf_record r" and rest: "\<forall>x \<in> set rs. wf_record x"
    by simp_all
  from wf obtain h body where r: "r = h @ body" and h: "length h = 24"
    and sz: "hdr_size h = 24 + length body" and b8: "8 \<le> length body"
    and v: "\<not> hdr_invalid h" and m: "24 + length body \<le> MaxAllocSize"
    by (rule wf_record_header)
  have len: "length (pre @ r) = length pre + (24 + length body)"
    using h by (simp add: r)
  have sel: "hdr_selected tz b e r = hdr_selected tz b e h"
    using h by (simp add: r hdr_selected_append)
  have step: "query_loop tz b e (pre @ concat (r # rs)) (length pre) rows =
    (if hdr_selected tz b e r
     then (case mk_row tz r of
             Inl er \<Rightarrow> Inl er
           | Inr row \<Rightarrow> query_loop tz b e ((pre @ r) @ concat rs) (length (pre @ r)) (rows @ [row]))
     else query_loop tz b e ((pre @ r) @ concat rs) (length (pre @ r)) rows)"
    unfolding len sel
    using query_loop_record [OF h sz b8 v m, of tz b e pre "concat rs" rows]
    by (simp add: r cong: sum.case_cong)
  obtain row where row: "mk_row tz r = Inr row"
    using mk_row_wf [OF wf, of tz] by blast
  show ?case
    unfolding step
    using row Cons.IH [OF rest, of "pre @ r"]
    by simp
qed

lemma pgaudit_query_file_records:
  assumes "\<forall>r \<in> set rs. wf_record r" and "dir fnum = Some (concat rs)"
  shows "pgaudit_query_file tz dir fnum begtime endtime st =
           Inr \<lparr>q_rows = q_rows st @ map (\<lambda>r. projr (mk_row tz r))
                                        (filter (hdr_selected tz begtime endtime) rs),
                q_opened = q_opened st @ [fnum]\<rparr>"
  using query_loop_records [OF assms(1), of tz begtime endtime "[]" "q_rows st"] assms(2)
  by (simp add: pgaudit_query_file_def)

text \<open>
  Claim C9. With \<open>endtime \<le> begtime\<close> a query that passes the entry checks returns no
  row and opens no audit file, and a delete by a privileged caller leaves the audit
  directory as it was and opens no file; a call that fails the entry checks ends with
  its error and touches nothing either.
\<close>

theorem empty_range_noop:
  assumes "endtime \<le> begtime"
  shows "pg_query_audit ctx tz indexfile dir begtime endtime =
           Some (case query_entry_checks ctx of
                   Some e \<Rightarrow> Inl e
                 | None \<Rightarrow> Inr \<lparr>q_rows = [], q_opened = []\<rparr>)
         \<and> pg_delete_audit ctx tz stack indexfile dir begtime endtime =
           Some (if has_auditadmin_privilege ctx
                 then Inr \<lparr>d_dir = dir, d_opened = []\<rparr>
                 else Inl PermissionDenied)"
  using assms
  by (simp add: pg_query_audit_def pg_delete_audit_def split: option.splits)

subsection \<open>Descriptions of out-of-range values\<close>

lemma AuditTypeDescs_length: "length AuditTypeDescs = 39"
  by (simp add: AuditTypeDescs_def)

lemma AuditTypeDescs_0: "AuditTypeDescs ! 0 = ''unknown''"
  by (simp add: AuditTypeDescs_def)

lemma AuditTypeIndex_bound: "AuditTypeIndex t < length AuditTypeDescs"
  by (auto simp: AuditTypeIndex_def AuditTypeNum_def AuditTypeDescs_length)

lemma AuditResultIndex_bound: "AuditResultIndex r < length AuditResultDescs"
  by (auto simp: AuditResultIndex_def AuditResultNum_def AuditResultDescs_def)

lemma AuditTypeDesc_unknown:
  "\<not> (0 \<le> sint t \<and> sint t < AuditTypeNum) \<Longrightarrow> AuditTypeDesc t = ''unknown''"
  by (auto simp: AuditTypeDesc_def AuditTypeIndex_def AuditTypeDescs_0)

lemma AuditResultDesc_unknown:
  "\<not> (0 \<le> sint r \<and> sint r < AuditResultNum) \<Longrightarrow> AuditResultDesc r = ''unknown''"
  by (auto simp: AuditResultDesc_def AuditResultIndex_def AuditResultDescs_def)

lemma mk_row_descs:
  assumes "wf_record r"
  shows "row_type (projr (mk_row tz r)) = AuditTypeDesc (projr (adata_type r))"
    and "row_result (projr (mk_row tz r)) = AuditResultDesc (projr (adata_result r))"
proof -
  have "32 \<le> length r"
    using assms by (simp add: wf_record_def AUDIT_HEADER_SIZE_def)
  moreover obtain fs where "collect (map (row_field r) [0..<10]) = Inr fs"
    using assms by (auto simp: wf_record_def split: sum.splits)
  ultimately show "row_type (projr (mk_row tz r)) = AuditTypeDesc (projr (adata_type r))"
    and "row_result (projr (mk_row tz r)) = AuditResultDesc (projr (adata_result r))"
    by (simp_all add: mk_row_def adata_type_def adata_result_def)
qed

text \<open>
  Claim C10. In the scan of a file of well-formed records every selected record yields
  its row, whatever its type and result fields hold; the description tables are
  indexed inside their bounds, and a type or result outside the enumeration is shown as
  \<open>unknown\<close>.
\<close>

theorem unknown_enum_row:
  assumes "\<forall>r \<in> set rs. wf_record r" and "dir fnum = Some (concat rs)"
  shows "pgaudit_query_file tz dir fnum begtime endtime st =
           Inr \<lparr>q_rows = q_rows st @ map (\<lambda>r. projr (mk_row tz r))
                                        (filter (hdr_selected tz begtime endtime) rs),
                q_opened = q_opened st @ [fnum]\<rparr>
         \<and> (\<forall>r \<in> set rs.
               AuditTypeIndex (projr (adata_type r)) < length AuditTypeDescs
             \<and> AuditResultIndex (projr (adata_result r)) < length AuditResultDescs
             \<and> row_type (projr (mk_row tz r)) =
                 AuditTypeDescs ! AuditTypeIndex (projr (adata_type r))
             \<and> row_result (projr (mk_row tz r)) =
                 AuditResultDescs ! AuditResultIndex (projr (adata_result r))
             \<and> (\<not> (0 \<le> sint (projr (adata_type r)) \<and> sint (projr (adata_type r)) < AuditTypeNum)
                  \<longrightarrow> row_type (projr (mk_row tz r)) = ''unknown'')
             \<and> (\<not> (0 \<le> sint (projr (adata_result r))
                     \<and> sint (projr (adata_result r)) < AuditResultNum)
                  \<longrightarrow> row_result (projr (mk_row tz r)) = ''unknown''))"
proof -
  have scan: "pgaudit_query_file tz dir fnum begtime endtime st =
           Inr \<lparr>q_rows = q_rows st @ map (\<lambda>r. projr (mk_row tz r))
                                        (filter (hdr_selected tz begtime endtime) rs),
                q_opened = q_opened st @ [fnum]\<rparr>"
    using pgaudit_query_file_records [where dir = dir and fnum = fnum and rs = rs
        and tz = tz and begtime = begtime and endtime = endtime and st = st, OF assms] .
  have each: "AuditTypeIndex (projr (adata_type r)) < length AuditTypeDescs
             \<and> AuditResultIndex (projr (adata_result r)) < length AuditResultDescs
             \<and> row_type (projr (mk_row tz r)) =
                 AuditTypeDescs ! AuditTypeIndex (projr (adata_type r))
             \<and> row_result (projr (mk_row tz r)) =
                 AuditResultDescs ! AuditResultIndex (projr (adata_result r))
             \<and> (\<not> (0 \<le> sint (projr (adata_type r)) \<and> sint (projr (adata_type r)) < AuditTypeNum)
                  \<longrightarrow> row_type (projr (mk_row tz r)) = ''unknown'')
             \<and> (\<not> (0 \<le> sint (projr (adata_result r))
                     \<and> sint (projr (adata_result r)) < AuditResultNum)
                  \<longrightarrow> row_result (projr (mk_row tz r)) = ''unknown'')"
    if "r \<in> set rs" for r
  proof -
    from that assms(1) have wf: "wf_record r" by simp
    show ?thesis
      using mk_row_descs [OF wf, of tz] AuditTypeIndex_bound AuditResultIndex_bound
        AuditTypeDesc_unknown AuditResultDesc_unknown
      by (simp add: AuditTypeDesc_def AuditResultDesc_def)
  qed
  show ?thesis
    using scan each by blast
qed

subsection \<open>Evaluation of the examples\<close>

lemma le_bytes_4:
  "le_bytes 4 v = [of_nat (v mod 256), of_nat (v div 256 mod 256),
     of_nat (v div 256 div 256 mod 256), of_nat (v div 256 div 256 div 256 mod 256)]"
proof -
  have four: "(4::nat) = Suc (Suc (Suc (Suc 0)))" by simp
  show ?thesis by (subst four) simp
qed

lemma le_bytes_8:
  "le_bytes 8 v = le_bytes 4 v @ le_bytes 4 (v div 256 div 256 div 256 div 256)"
proof -
  have eight: "(8::nat) = Suc (Suc (Suc (Suc (Suc (Suc (Suc (Suc 0)))))))" by simp
  show ?thesis by (subst eight) (simp add: le_bytes_4)
qed

lemma upt_10: "[0..<10] = [0, 1, 2, 3, 4, 5, 6, 7, 8, 9]"
  by (simp add: upt_rec)

lemma string_field_loop_numeral:
  "string_field_loop adata (numeral n) field datalen =
     (if length adata < field + 4 then Inl OutOfBounds
      else
        let fsize = le_nat (take 4 (drop field adata));
            datalen1 = (datalen + 2 ^ 32 - 4) mod 2 ^ 32
        in if fsize > datalen1 then Inr None
           else string_field_loop adata (pred_numeral n) (field + 4 + fsize) (datalen1 - fsize))"
  by (simp add: numeral_eq_Suc)

lemma string_field_loop_1:
  "string_field_loop adata 1 field datalen =
     (if length adata < field + 4 then Inl OutOfBounds
      else
        let fsize = le_nat (take 4 (drop field adata));
            datalen1 = (datalen + 2 ^ 32 - 4) mod 2 ^ 32
        in if fsize > datalen1 then Inr None
           else string_field_loop adata 0 (field + 4 + fsize) (datalen1 - fsize))"
  by simp

lemmas eval_record =
  wf_record_def AUDIT_HEADER_SIZE_def MaxAllocSize_def hdr_size_def hdr_invalid_def
  hdr_signature_def hdr_version_def hdr_fields_def hdr_flags_def hdr_time_def s64_def
  PGAUDIT_QUERY_COLS_def row_field_def pgaudit_string_field_def cstring_def upt_10
  string_field_loop_numeral string_field_loop_1 Let_def null_text_def
  mk_row_def adata_type_def adata_result_def

lemma example_record_bytes:
  "example_record 1000 1 34 1 =
     [65, 85, 0, 0, 13, 0, 1, 0, 232, 3, 0, 0, 0, 0, 0, 0, 83, 0, 0, 0, 0, 0, 0, 0,
      34, 0, 0, 0, 1, 0, 0, 0, 0, 0, 0, 0, 0, 0, 0, 0, 0, 0, 0, 0, 0, 0, 0, 0,
      5, 0, 0, 0, 102, 105, 108, 101, 0, 3, 0, 0, 0, 104, 105, 0, 3, 0, 0, 0, 100, 110, 0,
      0, 0, 0, 0, 0, 0, 0, 0, 0, 0, 0, 0]"
  "example_record 2000 2 34 1 =
     [65, 85, 0, 0, 13, 0, 2, 0, 208, 7, 0, 0, 0, 0, 0, 0, 83, 0, 0, 0, 0, 0, 0, 0,
      34, 0, 0, 0, 1, 0, 0, 0, 0, 0, 0, 0, 0, 0, 0, 0, 0, 0, 0, 0, 0, 0, 0, 0,
      5, 0, 0, 0, 102, 105, 108, 101, 0, 3, 0, 0, 0, 104, 105, 0, 3, 0, 0, 0, 100, 110, 0,
      0, 0, 0, 0, 0, 0, 0, 0, 0, 0, 0, 0]"
  "example_record 5000 1 99 7 =
     [65, 85, 0, 0, 13, 0, 1, 0, 136, 19, 0, 0, 0, 0, 0, 0, 83, 0, 0, 0, 0, 0, 0, 0,
      99, 0, 0, 0, 7, 0, 0, 0, 0, 0, 0, 0, 0, 0, 0, 0, 0, 0, 0, 0, 0, 0, 0, 0,
      5, 0, 0, 0, 102, 105, 108, 101, 0, 3, 0, 0, 0, 104, 105, 0, 3, 0, 0, 0, 100, 110, 0,
      0, 0, 0, 0, 0, 0, 0, 0, 0, 0, 0, 0]"
  by (simp_all add: example_record_def Let_def audit_report_buffer_def appendStringField_def
      stamp_def overwrite_def u64_def set_hdr_flags_def le_bytes_2 le_bytes_4 le_bytes_8
      PGAUDIT_QUERY_COLS_def AUDIT_TUPLE_NORMAL_def)

lemma example_record_wf:
  "wf_record (example_record 1000 1 34 1)"
  "wf_record (example_record 2000 2 34 1)"
  "wf_record (example_record 5000 1 99 7)"
  unfolding example_record_bytes by (simp_all add: eval_record)

lemma example_record_rows:
  "mk_row (\<lambda>t. t) (example_record 1000 1 34 1) =
     Inr \<lparr>row_time = 1000, row_type = ''internal_event'', row_result = ''ok'',
          row_fields = [null_text, null_text, null_text, null_text, [0x66, 0x69, 0x6C, 0x65],
                        [0x68, 0x69], [0x64, 0x6E], null_text, null_text, null_text]\<rparr>"
  "mk_row (\<lambda>t. t) (example_record 5000 1 99 7) =
     Inr \<lparr>row_time = 5000, row_type = ''unknown'', row_result = ''unknown'',
          row_fields = [null_text, null_text, null_text, null_text, [0x66, 0x69, 0x6C, 0x65],
                        [0x68, 0x69], [0x64, 0x6E], null_text, null_text, null_text]\<rparr>"
  unfolding example_record_bytes
  by (simp_all add: eval_record AuditTypeDesc_def AuditTypeIndex_def AuditTypeNum_def
      AuditTypeDescs_def AuditResultDesc_def AuditResultIndex_def AuditResultNum_def
      AuditResultDescs_def)

lemma example_record_headers:
  "hdr_time (example_record 1000 1 34 1) = 1000" "hdr_flags (example_record 1000 1 34 1) = 1"
  "hdr_time (example_record 2000 2 34 1) = 2000" "hdr_flags (example_record 2000 2 34 1) = 2"
  "hdr_time (example_record 5000 1 99 7) = 5000" "hdr_flags (example_record 5000 1 99 7) = 1"
  unfolding example_record_bytes by (simp_all add: eval_record)

theorem unknown_enum_row_witness:
  "wf_record (example_record 5000 1 99 7)
   \<and> pgaudit_query_file (\<lambda>t. t)
        (\<lambda>n. if n = 7 then Some (concat [example_record 5000 1 99 7]) else None)
        7 0 9000 \<lparr>q_rows = [], q_opened = []\<rparr>
      = Inr \<lparr>q_rows =
               [\<lparr>row_time = 5000, row_type = ''unknown'', row_result = ''unknown'',
                 row_fields = [null_text, null_text, null_text, null_text,
                               [0x66, 0x69, 0x6C, 0x65], [0x68, 0x69], [0x64, 0x6E],
                               null_text, null_text, null_text]\<rparr>],
             q_opened = [7]\<rparr>
   \<and> sint (projr (adata_type (example_record 5000 1 99 7))) = 99
   \<and> sint (projr (adata_result (example_record 5000 1 99 7))) = 7"
proof -
  let ?rs = "[example_record 5000 1 99 7]"
  let ?dir = "\<lambda>n::nat. if n = 7 then Some (concat ?rs) else None"
  have ok: "\<forall>r \<in> set ?rs. wf_record r"
    by (simp add: example_record_wf)
  have d: "?dir 7 = Some (concat ?rs)"
    by simp
  have sel: "hdr_selected (\<lambda>t. t) 0 9000 (example_record 5000 1 99 7)"
    by (simp add: hdr_selected_def example_record_headers AUDIT_TUPLE_NORMAL_def)
  have "pgaudit_query_file (\<lambda>t. t) ?dir 7 0 9000 \<lparr>q_rows = [], q_opened = []\<rparr>
      = Inr \<lparr>q_rows = [projr (mk_row (\<lambda>t. t) (example_record 5000 1 99 7))], q_opened = [7]\<rparr>"
    using unknown_enum_row [where rs = ?rs and dir = ?dir and fnum = 7 and tz = "\<lambda>t. t"
        and begtime = 0 and endtime = 9000 and st = "\<lparr>q_rows = [], q_opened = []\<rparr>", OF ok d]
      sel
    by simp
  moreover have "sint (projr (adata_type (example_record 5000 1 99 7))) = 99"
    "sint (projr (adata_result (example_record 5000 1 99 7))) = 7"
    unfolding example_record_bytes by (simp_all add: eval_record)
  ultimately show ?thesis
    by (simp add: example_record_wf example_record_rows)
qed

theorem empty_range_noop_witness:
  "(10::int) \<le> 10
   \<and> pg_query_audit
        \<lparr>has_auditadmin_privilege = True, rsinfo_is_ReturnSetInfo = True,
         materialize_allowed = True, result_type_composite = True, natts = 13\<rparr>
        (\<lambda>t. t)
        (Some \<lparr>maxnum = 2, begidx = 0, curidx = 0, count = 1, last_audit_time = 1000,
               data = [\<lparr>ctime = 5, filenum = 7, filesize = 0\<rparr>,
                       \<lparr>ctime = 0, filenum = 0, filesize = 0\<rparr>]\<rparr>)
        (\<lambda>n. if n = 7 then Some (example_record 1000 1 34 1) else None) 10 10
      = Some (Inr \<lparr>q_rows = [], q_opened = []\<rparr>)
   \<and> map_option (map_sum id (\<lambda>r. (d_dir r 7, d_opened r)))
        (pg_delete_audit
          \<lparr>has_auditadmin_privilege = True, rsinfo_is_ReturnSetInfo = True,
           materialize_allowed = True, result_type_composite = True, natts = 13\<rparr>
          (\<lambda>t. t) (replicate 24 0)
          (Some \<lparr>maxnum = 2, begidx = 0, curidx = 0, count = 1, last_audit_time = 1000,
                 data = [\<lparr>ctime = 5, filenum = 7, filesize = 0\<rparr>,
                         \<lparr>ctime = 0, filenum = 0, filesize = 0\<rparr>]\<rparr>)
          (\<lambda>n. if n = 7 then Some (example_record 1000 1 34 1) else None) 10 10)
      = Some (Inr (Some (example_record 1000 1 34 1), []))"
proof -
  have h: "(10::int) \<le> 10" by simp
  show ?thesis
    using empty_range_noop [OF h, where ctx = "\<lparr>has_auditadmin_privilege = True,
        rsinfo_is_ReturnSetInfo = True, materialize_allowed = True,
        result_type_composite = True, natts = 13\<rparr>"]
    by (simp add: query_entry_checks_def PGAUDIT_QUERY_COLS_def)
qed

subsection \<open>The walk over the ring\<close>

lemma mod_length_not_le: "xs \<noteq> [] \<Longrightarrow> \<not> length xs \<le> m mod length xs"
  by (simp add: not_le)





subsection \<open>Deleting through the entry point\<close>

















subsection \<open>Querying through the entry point\<close>











subsection \<open>The write path\<close>



lemma pgaudit_write_file_closed:
  "sysauditFile s = None \<Longrightarrow> pgaudit_write_file env mem off cnt s = Inr (mem, s)"
  by (subst pgaudit_write_file.simps) simp

lemma pgaudit_write_file_plain:
  assumes "sysauditFile s = Some ino" and "clock s = t # later"
    and "audit_indextbl s = Some tbl" and "last_audit_time tbl \<le> t" and "\<not> fwrite_fails env"
  shows "pgaudit_write_file env mem off cnt s =
           Inr (stamp t cnt off mem,
                s\<lparr>clock := later,
                  audit_indextbl := Some (tbl\<lparr>last_audit_time := t\<rparr>),
                  inodes := (inodes s)
                    (ino := inodes s ino @ take cnt (drop off (stamp t cnt off mem)))\<rparr>)"
  using assms
  by (subst pgaudit_write_file.simps) (simp add: set_last_audit_time_def)

text \<open>
  Claim C3, at a concrete input. Thirty bytes \<^verbatim>\<open>x\<close> arrive on the pipe; they hold no
  valid header and no zero byte, so all thirty are handed to \<^verbatim>\<open>pgaudit_write_file\<close>,
  which stamps the time (1000) over bytes 8 to 15 and the length (30) over bytes 16 to
  19 before it writes them: the file does not receive the bytes as they came.
\<close>

theorem passthrough_is_stamped:
  "map_sum id (\<lambda>(buf, s'). (buf, inodes s' 0))
     (process_pipe_input example_env (Some 4096)
        [0x78, 0x78, 0x78, 0x78, 0x78, 0x78, 0x78, 0x78, 0x78, 0x78,
         0x78, 0x78, 0x78, 0x78, 0x78, 0x78, 0x78, 0x78, 0x78, 0x78,
         0x78, 0x78, 0x78, 0x78, 0x78, 0x78, 0x78, 0x78, 0x78, 0x78] example_state)
   = Inr ([], [0x78, 0x78, 0x78, 0x78, 0x78, 0x78, 0x78, 0x78, 232, 3, 0, 0, 0, 0, 0, 0,
               30, 0, 0, 0, 0x78, 0x78, 0x78, 0x78, 0x78, 0x78, 0x78, 0x78, 0x78, 0x78])"
  by (simp add: process_pipe_input_def process_pipe_loop.simps sizeof_PipeProtoHeader_def
      pipe_header_valid_def scan_to_nul_def pgaudit_write_file.simps example_state_def
      example_env_def set_last_audit_time_def stamp_def overwrite_def u64_def le_bytes_4
      le_bytes_8 Let_def)


subsection \<open>Clock rewinds\<close>










subsection \<open>Rotation\<close>

lemma audit_report_internal_ok:
  assumes "sysauditFile s = Some ino" and "clock s = t # later"
    and "audit_indextbl s = Some tbl" and "last_audit_time tbl \<le> t" and "\<not> fwrite_fails env"
  shows "\<exists>s' t'. audit_report_internal env obj det s = Inr s'
           \<and> audit_indextbl s' = Some (tbl\<lparr>last_audit_time := t'\<rparr>)
           \<and> index_table_file s' = index_table_file s
           \<and> dirents s' = dirents s
           \<and> sysauditFile s' = sysauditFile s
           \<and> pgaudit_totalspace s' = pgaudit_totalspace s
           \<and> space_beyond_size s' = space_beyond_size s
           \<and> next_rotation_time s' = next_rotation_time s
           \<and> (clock s' = later \<or> clock s' = t # later)"
proof (cases "report_enabled env")
  case True
  let ?b = "internal_event_buffer env obj det"
  have "pgaudit_write_file env ?b 0 (length ?b) s =
           Inr (stamp t (length ?b) 0 ?b,
                s\<lparr>clock := later,
                  audit_indextbl := Some (tbl\<lparr>last_audit_time := t\<rparr>),
                  inodes := (inodes s)
                    (ino := inodes s ino @ take (length ?b) (drop 0 (stamp t (length ?b) 0 ?b)))\<rparr>)"
    using assms by (rule pgaudit_write_file_plain)
  then show ?thesis
    using True by (auto simp: audit_report_internal_def)
next
  case False
  have "audit_report_internal env obj det s = Inr s"
    using False by (simp add: audit_report_internal_def)
  then show ?thesis
    using assms
    by (intro exI [of _ s] exI [of _ "last_audit_time tbl"]) simp
qed

lemma s32_rotinterval:
  assumes "0 < a" and "a \<le> 35791394"
  shows "s32 (a * SECS_PER_MINUTE) = a * 60"
proof -
  have "0 \<le> a * 60 + 2 ^ 31" and "a * 60 + 2 ^ 31 < (2 ^ 32 :: int)"
    using assms by simp_all
  then have "(a * 60 + 2 ^ 31) mod 2 ^ 32 = a * 60 + 2 ^ 31"
    by (rule mod_pos_pos_trivial)
  then show ?thesis
    by (simp add: s32_def SECS_PER_MINUTE_def)
qed

lemma set_next_rotation_time_ok:
  assumes "clock s \<noteq> []" and "Audit_RotationAge (config env) \<le> 35791394"
  shows "\<exists>s'. set_next_rotation_time env s = Inr s'
           \<and> audit_indextbl s' = audit_indextbl s
           \<and> index_table_file s' = index_table_file s"
proof (cases "Audit_RotationAge (config env) \<le> 0")
  case True
  then show ?thesis
    by (simp add: set_next_rotation_time_def)
next
  case False
  then have "s32 (Audit_RotationAge (config env) * SECS_PER_MINUTE) \<noteq> 0"
    using assms(2) by (simp add: s32_rotinterval)
  then show ?thesis
    using assms(1) False
    by (cases "clock s") (auto simp: set_next_rotation_time_def Let_def)
qed

lemma audit_report_internal_table:
  assumes "sysauditFile s = Some ino" and "clock s = t # later"
    and "audit_indextbl s = Some tbl" and "report_enabled env \<longrightarrow> last_audit_time tbl \<le> t"
    and "\<not> fwrite_fails env"
  shows "\<exists>s' t'. audit_report_internal env obj det s = Inr s'
           \<and> audit_indextbl s' = Some (tbl\<lparr>last_audit_time := t'\<rparr>)
           \<and> index_table_file s' = index_table_file s
           \<and> sysauditFile s' = sysauditFile s
           \<and> (clock s' = later \<or> clock s' = t # later)"
proof (cases "report_enabled env")
  case True
  then have "last_audit_time tbl \<le> t" using assms(4) by simp
  from audit_report_internal_ok [OF assms(1,2,3) this assms(5), of obj det]
  show ?thesis by blast
next
  case False
  have "audit_report_internal env obj det s = Inr s"
    using False by (simp add: audit_report_internal_def)
  then show ?thesis
    using assms
    by (intro exI [of _ s] exI [of _ "last_audit_time tbl"]) simp
qed

lemma auditfile_close_slot:
  assumes tbl: "audit_indextbl s = Some tbl" and f: "sysauditFile s = Some ino"
    and cur: "curidx tbl < length (data tbl)" and mx: "maxnum tbl = length (data tbl)"
  shows "\<exists>s2 tbl2. auditfile_close s = Inr s2 \<and> audit_indextbl s2 = Some tbl2
           \<and> curidx tbl2 = ((curidx tbl + 1) mod 2 ^ 32) mod maxnum tbl
           \<and> curidx tbl2 < length (data tbl2)
           \<and> filenum (data tbl2 ! curidx tbl2) = (filenum (data tbl ! curidx tbl) + 1) mod 2 ^ 32
           \<and> ctime (data tbl2 ! curidx tbl2)
               = ctime (data tbl ! (((curidx tbl + 1) mod 2 ^ 32) mod maxnum tbl))
           \<and> last_audit_time tbl2 = last_audit_time tbl
           \<and> dirents s2 = dirents s \<and> clock s2 = clock s"
proof -
  have ne: "data tbl \<noteq> []" using cur by (cases "data tbl") simp_all
  have pos: "0 < maxnum tbl" using ne mx by simp
  have nx: "((curidx tbl + 1) mod 2 ^ 32) mod length (data tbl) < length (data tbl)"
    using ne by simp
  show ?thesis
    using assms ne nx
    by (auto simp: auditfile_close_def Let_def mod_length_not_le nth_list_update)
qed

lemma auditfile_open_slot:
  assumes "audit_indextbl s = Some tbl" and "curidx tbl < length (data tbl)"
    and "fopen_errno env (filenum (data tbl ! curidx tbl)) = None"
  shows "\<exists>s3 tbl3 fh. auditfile_open env ts allow s = Inr (Inr fh, s3)
           \<and> audit_indextbl s3 = Some tbl3 \<and> index_table_file s3 = Some tbl3
           \<and> curidx tbl3 = curidx tbl
           \<and> filenum (data tbl3 ! curidx tbl3) = filenum (data tbl ! curidx tbl)
           \<and> ctime (data tbl3 ! curidx tbl3)
               = (if dirents s (filenum (data tbl ! curidx tbl)) = None then ts
                  else ctime (data tbl ! curidx tbl))
           \<and> last_audit_time tbl3 = last_audit_time tbl
           \<and> clock s3 = clock s"
  using assms
  by (cases "dirents s (filenum (data tbl ! curidx tbl))")
     (auto simp: auditfile_open_def fopen_append_def Let_def pgaudit_update_indexfile_def)

lemma auditfile_rotate_slot:
  assumes tbl: "audit_indextbl s = Some tbl" and f: "sysauditFile s = Some ino"
    and cur: "curidx tbl < length (data tbl)" and mx: "maxnum tbl = length (data tbl)"
    and age: "Audit_RotationAge (config env) \<le> 35791394"
    and opn: "fopen_errno env ((filenum (data tbl ! curidx tbl) + 1) mod 2 ^ 32) = None"
    and wr: "\<not> fwrite_fails env"
    and clk: "clock s = t0 # t1 # t2 # later"
    and rec: "report_enabled env \<longrightarrow>
                last_audit_time tbl \<le> (if time_based_rotation then t0 else t1)"
    and rot: "time_based_rotation \<or> size_based_rotation"
  shows "\<exists>s' tbl' itbl.
           auditfile_rotate env time_based_rotation size_based_rotation s = Inr s'
           \<and> audit_indextbl s' = Some tbl' \<and> index_table_file s' = Some itbl
           \<and> curidx tbl' = ((curidx tbl + 1) mod 2 ^ 32) mod maxnum tbl
           \<and> curidx itbl = curidx tbl'
           \<and> filenum (data tbl' ! curidx tbl') = (filenum (data tbl ! curidx tbl) + 1) mod 2 ^ 32
           \<and> ctime (data tbl' ! curidx tbl')
               = (if dirents s ((filenum (data tbl ! curidx tbl) + 1) mod 2 ^ 32) = None
                  then (if time_based_rotation then next_rotation_time s else t0)
                  else ctime (data tbl ! (((curidx tbl + 1) mod 2 ^ 32) mod maxnum tbl)))
           \<and> ctime (data itbl ! curidx itbl) = ctime (data tbl' ! curidx tbl')"
proof -
  define fntime where "fntime = (if time_based_rotation then next_rotation_time s else t0)"
  define s1 where "s1 = (if time_based_rotation then s\<lparr>rotation_requested := False\<rparr>
                         else s\<lparr>rotation_requested := False, clock := t1 # t2 # later\<rparr>)"
  have s1: "audit_indextbl s1 = Some tbl" "sysauditFile s1 = Some ino"
    "dirents s1 = dirents s"
    "clock s1 = (if time_based_rotation then t0 # t1 # t2 # later else t1 # t2 # later)"
    using tbl f clk by (simp_all add: s1_def)
  from auditfile_close_slot [OF s1(1,2) cur mx]
  obtain s2 tbl2 where s2: "auditfile_close s1 = Inr s2" "audit_indextbl s2 = Some tbl2"
    "curidx tbl2 = ((curidx tbl + 1) mod 2 ^ 32) mod maxnum tbl"
    "curidx tbl2 < length (data tbl2)"
    "filenum (data tbl2 ! curidx tbl2) = (filenum (data tbl ! curidx tbl) + 1) mod 2 ^ 32"
    "ctime (data tbl2 ! curidx tbl2)
       = ctime (data tbl ! (((curidx tbl + 1) mod 2 ^ 32) mod maxnum tbl))"
    "last_audit_time tbl2 = last_audit_time tbl"
    "dirents s2 = dirents s1" "clock s2 = clock s1"
    by blast
  have opn2: "fopen_errno env (filenum (data tbl2 ! curidx tbl2)) = None"
    using opn s2(5) by simp
  from auditfile_open_slot [OF s2(2) s2(4) opn2, of fntime True]
  obtain s3 tbl3 fh where s3: "auditfile_open env fntime True s2 = Inr (Inr fh, s3)"
    "audit_indextbl s3 = Some tbl3" "index_table_file s3 = Some tbl3"
    "curidx tbl3 = curidx tbl2"
    "filenum (data tbl3 ! curidx tbl3) = filenum (data tbl2 ! curidx tbl2)"
    "ctime (data tbl3 ! curidx tbl3)
       = (if dirents s2 (filenum (data tbl2 ! curidx tbl2)) = None then fntime
          else ctime (data tbl2 ! curidx tbl2))"
    "last_audit_time tbl3 = last_audit_time tbl2" "clock s3 = clock s2"
    by blast
  let ?s3 = "s3\<lparr>sysauditFile := Some fh\<rparr>"
  define t where "t = (if time_based_rotation then t0 else t1)"
  define rest where "rest = (if time_based_rotation then t1 # t2 # later else t2 # later)"
  have c3: "clock ?s3 = t # rest"
    using s3(8) s2(9) s1(4) by (simp add: t_def rest_def)
  have l3: "report_enabled env \<longrightarrow> last_audit_time tbl3 \<le> t"
    using s3(7) s2(7) rec by (simp add: t_def)
  have "sysauditFile ?s3 = Some fh" "audit_indextbl ?s3 = Some tbl3"
    using s3(2) by simp_all
  from audit_report_internal_table [OF this(1) c3 this(2) l3 wr,
      of "Some (bytes_of ''file'')" "Some (bytes_of ''create a new audit file'')"]
  obtain s4 t' where s4: "audit_report_internal env (Some (bytes_of ''file''))
        (Some (bytes_of ''create a new audit file'')) ?s3 = Inr s4"
    "audit_indextbl s4 = Some (tbl3\<lparr>last_audit_time := t'\<rparr>)"
    "index_table_file s4 = index_table_file ?s3"
    "clock s4 = rest \<or> clock s4 = t # rest"
    by blast
  have "rest \<noteq> []"
    by (simp add: rest_def)
  then have "clock s4 \<noteq> []"
    using s4(4) by auto
  from set_next_rotation_time_ok [OF this age]
  obtain s5 where s5: "set_next_rotation_time env s4 = Inr s5"
    "audit_indextbl s5 = audit_indextbl s4" "index_table_file s5 = index_table_file s4"
    by blast
  have first: "(if time_based_rotation
            then Inr (next_rotation_time s, s\<lparr>rotation_requested := False\<rparr>)
            else (case clock s of
                    [] \<Rightarrow> Inl NoClockReading
                  | t # later \<Rightarrow> Inr (t, s\<lparr>rotation_requested := False, clock := later\<rparr>)))
        = Inr (fntime, s1)"
    using clk by (simp add: fntime_def s1_def)
  have run: "auditfile_rotate env time_based_rotation size_based_rotation s = Inr s5"
    unfolding auditfile_rotate_def first
    using rot s2(1) s3(1) s4(1) s5(1) by simp
  show ?thesis
    using run s5(2,3) s4(2,3) s3(3,4,5,6) s2(3,5,6,8) s1(3)
    by (intro exI [of _ s5] exI [of _ "tbl3\<lparr>last_audit_time := t'\<rparr>"] exI [of _ tbl3])
       (simp add: fntime_def)
qed

text \<open>
  Claim C6, amended. A file is open, the current slot lies among the \<open>maxnum\<close> slots
  of the table, time-based rotation is on (\<^verbatim>\<open>Audit_RotationAge\<close> in its range) and
  not disabled, the main loop finds a reason to rotate, the file of the next number
  can be opened, \<^verbatim>\<open>fwrite\<close> does not fail, and the clock read for the record of the
  new file is not below \<open>last_audit_time\<close> (or \<^verbatim>\<open>audit_report\<close> lets no record
  pass). Then the rotation returns, the table and the index file point at the next slot,
  and the slot holds the next file number. If the file did not exist, the slot's \<open>ctime\<close>
  is \<open>next_rotation_time\<close> as it stood before, however far the clock read by the main
  loop is beyond it, when the rotation is time-based, and the clock reading taken by
  \<^verbatim>\<open>auditfile_rotate\<close> when it is not. If the file existed, the slot keeps the
  \<open>ctime\<close> it had.
\<close>

theorem rotation_name_stability:
  assumes tbl: "audit_indextbl s = Some tbl" and f: "sysauditFile s = Some ino"
    and cur: "curidx tbl < length (data tbl)" and mx: "maxnum tbl = length (data tbl)"
    and age: "0 < Audit_RotationAge (config env)" "Audit_RotationAge (config env) \<le> 35791394"
    and en: "\<not> rotation_disabled s"
    and clk: "clock s = now # t0 # t1 # t2 # later"
    and rot: "next_rotation_time s \<le> now \<or> rotation_requested s
              \<or> 0 < Audit_RotationSize (config env)
                \<and> (Audit_RotationSize (config env) * 1024 \<le> int (ftell s ino)
                   \<or> Audit_SpaceLimit (config env) * 1024 \<le> int (ftell s ino))"
    and opn: "fopen_errno env ((filenum (data tbl ! curidx tbl) + 1) mod 2 ^ 32) = None"
    and wr: "\<not> fwrite_fails env"
    and rec: "report_enabled env \<longrightarrow>
                last_audit_time tbl \<le> (if next_rotation_time s \<le> now then t0 else t1)"
  shows "\<exists>s' tbl' itbl.
           PgAuditorMain_rotation env s = Inr s'
           \<and> audit_indextbl s' = Some tbl' \<and> index_table_file s' = Some itbl
           \<and> curidx tbl' = ((curidx tbl + 1) mod 2 ^ 32) mod maxnum tbl
           \<and> curidx itbl = curidx tbl'
           \<and> filenum (data tbl' ! curidx tbl') = (filenum (data tbl ! curidx tbl) + 1) mod 2 ^ 32
           \<and> ctime (data tbl' ! curidx tbl')
               = (if dirents s ((filenum (data tbl ! curidx tbl) + 1) mod 2 ^ 32) = None
                  then (if next_rotation_time s \<le> now then next_rotation_time s else t0)
                  else ctime (data tbl ! (((curidx tbl + 1) mod 2 ^ 32) mod maxnum tbl)))
           \<and> ctime (data itbl ! curidx itbl) = ctime (data tbl' ! curidx tbl')"
proof -
  define tb where "tb = (next_rotation_time s \<le> now)"
  define s1 where "s1 = (if tb then s\<lparr>clock := t0 # t1 # t2 # later, rotation_requested := True\<rparr>
                         else s\<lparr>clock := t0 # t1 # t2 # later\<rparr>)"
  define sb where "sb = (\<not> rotation_requested s1 \<and> Audit_RotationSize (config env) > 0
                         \<and> (int (ftell s1 ino) \<ge> Audit_RotationSize (config env) * 1024
                            \<or> int (ftell s1 ino) \<ge> Audit_SpaceLimit (config env) * 1024))"
  define s2 where "s2 = (if sb then s1\<lparr>rotation_requested := True\<rparr> else s1)"
  have first: "(if Audit_RotationAge (config env) > 0 \<and> \<not> rotation_disabled s
            then (case clock s of
                    [] \<Rightarrow> Inl NoClockReading
                  | now # later \<Rightarrow>
                      if now \<ge> next_rotation_time s
                      then Inr (True, s\<lparr>clock := later, rotation_requested := True\<rparr>)
                      else Inr (False, s\<lparr>clock := later\<rparr>))
            else Inr (False, s)) = Inr (tb, s1)"
    using age(1) en clk by (simp add: tb_def s1_def)
  have s1: "sysauditFile s1 = Some ino" "rotation_disabled s1 = rotation_disabled s"
    "ftell s1 ino = ftell s ino"
    using f by (simp_all add: s1_def ftell_def)
  have second: "(if \<not> rotation_requested s1 \<and> Audit_RotationSize (config env) > 0
                    \<and> \<not> rotation_disabled s1
                 then (case sysauditFile s1 of
                         None \<Rightarrow> Inl OutOfBounds
                       | Some ino \<Rightarrow>
                           if int (ftell s1 ino) \<ge> Audit_RotationSize (config env) * 1024
                              \<or> int (ftell s1 ino) \<ge> Audit_SpaceLimit (config env) * 1024
                           then Inr (True, s1\<lparr>rotation_requested := True\<rparr>)
                           else Inr (False, s1))
                 else Inr (False, s1)) = Inr (sb, s2)"
    using s1 en by (auto simp: sb_def s2_def)
  have req: "rotation_requested s2"
    using rot s1(3) by (auto simp: s2_def sb_def s1_def tb_def)
  have s2: "audit_indextbl s2 = Some tbl" "sysauditFile s2 = Some ino"
    "clock s2 = t0 # t1 # t2 # later" "dirents s2 = dirents s"
    "next_rotation_time s2 = next_rotation_time s"
    using tbl f by (simp_all add: s2_def s1_def)
  have rec2: "report_enabled env \<longrightarrow> last_audit_time tbl \<le> (if tb then t0 else t1)"
    using rec by (simp add: tb_def)
  have rot2: "tb \<or> (sb \<or> (\<not> tb \<and> \<not> sb))"
    by auto
  from auditfile_rotate_slot [OF s2(1,2) cur mx age(2) opn wr s2(3) rec2 rot2]
  obtain s' tbl' itbl where r:
    "auditfile_rotate env tb (sb \<or> (\<not> tb \<and> \<not> sb)) s2 = Inr s'"
    "audit_indextbl s' = Some tbl'" "index_table_file s' = Some itbl"
    "curidx tbl' = ((curidx tbl + 1) mod 2 ^ 32) mod maxnum tbl"
    "curidx itbl = curidx tbl'"
    "filenum (data tbl' ! curidx tbl') = (filenum (data tbl ! curidx tbl) + 1) mod 2 ^ 32"
    "ctime (data tbl' ! curidx tbl')
       = (if dirents s2 ((filenum (data tbl ! curidx tbl) + 1) mod 2 ^ 32) = None
          then (if tb then next_rotation_time s2 else t0)
          else ctime (data tbl ! (((curidx tbl + 1) mod 2 ^ 32) mod maxnum tbl)))"
    "ctime (data itbl ! curidx itbl) = ctime (data tbl' ! curidx tbl')"
    by blast
  have run: "PgAuditorMain_rotation env s = Inr s'"
    unfolding PgAuditorMain_rotation_def first
    using second req r(1) by simp
  show ?thesis
    using run r(2-8) s2(4,5)
    by (intro exI [of _ s'] exI [of _ tbl'] exI [of _ itbl]) (simp add: tb_def)
qed

lemmas eval_rotate =
  PgAuditorMain_rotation_def auditfile_rotate_def auditfile_close_def auditfile_open_def
  fopen_append_def set_next_rotation_time_def s32_def c_rem_def SECS_PER_MINUTE_def
  AUDIT_COUNT_def example_env_def example_state_def ftell_def u32_def
  audit_report_internal_def pgaudit_write_file.simps set_last_audit_time_def
  pgaudit_update_indexfile_def result_state_def current_slot_def Let_def

theorem rotation_name_stability_witness:
  "next_rotation_time (example_state\<lparr>clock := [90000, 90001, 90002, 90003]\<rparr>) = 86400
   \<and> (\<exists>s' tbl'. PgAuditorMain_rotation example_env
                    (example_state\<lparr>clock := [90000, 90001, 90002, 90003]\<rparr>) = Inr s'
         \<and> audit_indextbl s' = Some tbl' \<and> curidx tbl' = 1
         \<and> filenum (data tbl' ! curidx tbl') = 1
         \<and> ctime (data tbl' ! curidx tbl') = 86400)"
proof -
  let ?s = "example_state\<lparr>clock := [90000, 90001, 90002, 90003]\<rparr>"
  let ?tbl = "\<lparr>maxnum = 4, begidx = 0, curidx = 0, count = 1, last_audit_time = 900,
               data = [\<lparr>ctime = 800, filenum = 0, filesize = 0\<rparr>,
                       \<lparr>ctime = 0, filenum = 0, filesize = 0\<rparr>,
                       \<lparr>ctime = 0, filenum = 0, filesize = 0\<rparr>,
                       \<lparr>ctime = 0, filenum = 0, filesize = 0\<rparr>]\<rparr>"
  have h: "audit_indextbl ?s = Some ?tbl" "sysauditFile ?s = Some 0"
    "curidx ?tbl < length (data ?tbl)" "maxnum ?tbl = length (data ?tbl)"
    "0 < Audit_RotationAge (config example_env)"
    "Audit_RotationAge (config example_env) \<le> 35791394"
    "\<not> rotation_disabled ?s"
    "clock ?s = 90000 # 90001 # 90002 # 90003 # []"
    "next_rotation_time ?s \<le> 90000 \<or> rotation_requested ?s
       \<or> 0 < Audit_RotationSize (config example_env)
         \<and> (Audit_RotationSize (config example_env) * 1024 \<le> int (ftell ?s 0)
            \<or> Audit_SpaceLimit (config example_env) * 1024 \<le> int (ftell ?s 0))"
    "fopen_errno example_env ((filenum (data ?tbl ! curidx ?tbl) + 1) mod 2 ^ 32) = None"
    "\<not> fwrite_fails example_env"
    "report_enabled example_env \<longrightarrow>
       last_audit_time ?tbl \<le> (if next_rotation_time ?s \<le> 90000 then 90001 else 90002)"
    by (simp_all add: example_state_def example_env_def)
  from rotation_name_stability [OF h]
  obtain s' tbl' where
    "PgAuditorMain_rotation example_env ?s = Inr s'"
    "audit_indextbl s' = Some tbl'"
    "curidx tbl' = ((curidx ?tbl + 1) mod 2 ^ 32) mod maxnum ?tbl"
    "filenum (data tbl' ! curidx tbl') = (filenum (data ?tbl ! curidx ?tbl) + 1) mod 2 ^ 32"
    "ctime (data tbl' ! curidx tbl')
       = (if dirents ?s ((filenum (data ?tbl ! curidx ?tbl) + 1) mod 2 ^ 32) = None
          then (if next_rotation_time ?s \<le> 90000 then next_rotation_time ?s else 90001)
          else ctime (data ?tbl ! (((curidx ?tbl + 1) mod 2 ^ 32) mod maxnum ?tbl)))"
    by blast
  then show ?thesis
    by (intro conjI exI [of _ s'] exI [of _ tbl']) (simp_all add: example_state_def)
qed

text \<open>
  Claim C6 as stated fails where the file of the next number exists: the main loop
  reads 90000, the rotation planned for 86400 is time-based, \<^verbatim>\<open>1_adt\<close> is opened for
  appending, and the new slot holds the \<open>ctime\<close> it had before, 0.
\<close>

theorem rotation_onto_existing_file:
  "next_rotation_time
     (example_state\<lparr>dirents := (dirents example_state)(1 \<mapsto> 1), next_inode := 2,
                    clock := [90000, 90001, 90002, 90003]\<rparr>) = 86400
   \<and> map_option current_slot
       (result_state
          (PgAuditorMain_rotation example_env
             (example_state\<lparr>dirents := (dirents example_state)(1 \<mapsto> 1), next_inode := 2,
                            clock := [90000, 90001, 90002, 90003]\<rparr>)))
     = Some (Some \<lparr>ctime = 0, filenum = 1, filesize = 0\<rparr>)"
  by (simp add: eval_rotate)

subsection \<open>Retention\<close>

lemma length_big_file: "length big_file = 2000000"
  by (simp only: big_file_def length_replicate)

lemma cleanup_loop_unfold:
  "audit_indextbl s = Some tbl \<Longrightarrow> cleanup_condition env fsize s tbl \<Longrightarrow>
   cleanup_loop env fsize index s =
     (case cleanup_body env fsize index s tbl of
        Inl e \<Rightarrow> Some (Inl e)
      | Inr (Break (i, s')) \<Rightarrow> Some (Inr s')
      | Inr (Continue (i, s')) \<Rightarrow> cleanup_loop env fsize i s')"
  by (subst cleanup_loop.simps) simp

lemma cleanup_loop_done:
  "audit_indextbl s = Some tbl \<Longrightarrow> \<not> cleanup_condition env fsize s tbl \<Longrightarrow>
   cleanup_loop env fsize index s = Some (Inr s)"
  by (subst cleanup_loop.simps) simp

lemma cleanup_remove_ok:
  assumes idx: "index < length (data tbl)" and mx: "maxnum tbl = length (data tbl)"
    and ul: "\<not> unlink_fails env (filenum (data tbl ! index))"
    and f: "sysauditFile s = Some ino" and clk: "clock s = t # later"
    and lt: "last_audit_time tbl \<le> t" and wr: "\<not> fwrite_fails env"
  shows "\<exists>r s' tbl'. cleanup_remove env index s tbl = Inr r
           \<and> (r = Break (index, s') \<or> r = Continue (begidx tbl', s'))
           \<and> audit_indextbl s' = Some tbl'
           \<and> dirents s' = (dirents s)(filenum (data tbl ! index) := None)
           \<and> data tbl' = (data tbl)[index := \<lparr>ctime = 0, filenum = 0, filesize = 0\<rparr>]
           \<and> begidx tbl' = ((index + 1) mod 2 ^ 32) mod maxnum tbl
           \<and> count tbl' = count tbl - 1
           \<and> curidx tbl' = curidx tbl
           \<and> pgaudit_totalspace s'
               = (pgaudit_totalspace s + 2 ^ 64 - filesize (data tbl ! index)) mod 2 ^ 64"
proof -
  let ?item = "data tbl ! index"
  let ?tbl1 = "tbl\<lparr>count := (if count tbl > 0 then count tbl - 1 else count tbl),
                    begidx := ((index + 1) mod 2 ^ 32) mod maxnum tbl,
                    data := (data tbl)[index := \<lparr>ctime = 0, filenum = 0, filesize = 0\<rparr>]\<rparr>"
  let ?s1 = "pgaudit_update_indexfile
               (s\<lparr>dirents := (dirents s)(filenum ?item := None),
                  pgaudit_totalspace :=
                    (pgaudit_totalspace s + 2 ^ 64 - filesize ?item) mod 2 ^ 64,
                  audit_indextbl := Some ?tbl1\<rparr>)"
  let ?obj = "Some (bytes_of ''file'')"
  let ?det = "Some (bytes_of ''remove an audit file(number: '' @ decimal (filenum ?item)
                              @ bytes_of '')'')"
  have ne: "data tbl \<noteq> []" using idx by (cases "data tbl") simp_all
  have pos: "maxnum tbl \<noteq> 0" using ne mx by simp
  have h1: "sysauditFile ?s1 = Some ino" "clock ?s1 = t # later"
    "audit_indextbl ?s1 = Some ?tbl1" "last_audit_time ?tbl1 \<le> t"
    using f clk lt by (simp_all add: pgaudit_update_indexfile_def)
  from audit_report_internal_ok [OF h1 wr, of ?obj ?det]
  obtain s2 t' where s2: "audit_report_internal env ?obj ?det ?s1 = Inr s2"
    "audit_indextbl s2 = Some (?tbl1\<lparr>last_audit_time := t'\<rparr>)"
    "dirents s2 = dirents ?s1" "pgaudit_totalspace s2 = pgaudit_totalspace ?s1"
    by blast
  have run: "cleanup_remove env index s tbl =
      (if index = curidx tbl then Inr (Break (index, s2))
       else Inr (Continue (begidx (?tbl1\<lparr>last_audit_time := t'\<rparr>), s2)))"
    unfolding cleanup_remove_def Let_def
    using ul pos s2(1,2) by simp
  show ?thesis
    using run s2(2,3,4)
    by (intro exI [of _ "if index = curidx tbl then Break (index, s2)
                         else Continue (begidx (?tbl1\<lparr>last_audit_time := t'\<rparr>), s2)"]
              exI [of _ s2] exI [of _ "?tbl1\<lparr>last_audit_time := t'\<rparr>"])
       (simp add: pgaudit_update_indexfile_def)
qed

text \<open>
  Claim C2, amended. Under the time-priority policy with a retention age, the total
  at or below \<^verbatim>\<open>SPACE_MAXIMUM_SIZE\<close> and the count within the threshold, the loop stops
  and keeps every file when the victim's age is at most the retention age or the next
  slot's age is below it: nothing is unlinked, the table is unchanged. Otherwise, when
  both slots are old, the victim is unlinked, its slot zeroed, \<open>begidx\<close> moved to the
  next slot and the count decremented, and the loop goes on from there unless the victim
  was the slot at \<open>curidx\<close>. The file can be unlinked, the record of the removal can be
  written, and the clock does not run behind \<open>last_audit_time\<close>.
\<close>

theorem time_priority_retention:
  assumes tbl: "audit_indextbl s = Some tbl"
    and pol: "Audit_CleanupPolicy (config env) = 0"
    and age: "Audit_RemainAge (config env) \<noteq> 0"
    and ceil: "(pgaudit_totalspace s + fsize) mod 2 ^ 64 \<le> SPACE_MAXIMUM_SIZE"
    and cnt: "count tbl \<le> u32 (Audit_RemainThreshold (config env))"
    and cond: "cleanup_condition env fsize s tbl"
    and idx: "index < length (data tbl)" and mx: "maxnum tbl = length (data tbl)"
    and ul: "\<not> unlink_fails env (filenum (data tbl ! index))"
    and f: "sysauditFile s = Some ino" and clk: "clock s = t # later"
    and lt: "last_audit_time tbl \<le> t" and wr: "\<not> fwrite_fails env"
  shows "if Audit_RemainAge (config env) * SECS_PER_DAY
              \<ge> last_audit_time tbl - ctime (data tbl ! index)
            \<or> Audit_RemainAge (config env) * SECS_PER_DAY
              > last_audit_time tbl - ctime (data tbl ! (((index + 1) mod 2 ^ 32) mod maxnum tbl))
         then \<exists>s'. cleanup_loop env fsize index s = Some (Inr s')
                 \<and> dirents s' = dirents s \<and> audit_indextbl s' = Some tbl
                 \<and> index_table_file s' = index_table_file s
                 \<and> pgaudit_totalspace s' = pgaudit_totalspace s
         else \<exists>r s' tbl'. cleanup_body env fsize index s tbl = Inr r
                 \<and> (r = Break (index, s') \<or> r = Continue (begidx tbl', s'))
                 \<and> cleanup_loop env fsize index s =
                     (case r of Break (i, s'') \<Rightarrow> Some (Inr s'')
                      | Continue (i, s'') \<Rightarrow> cleanup_loop env fsize i s'')
                 \<and> audit_indextbl s' = Some tbl'
                 \<and> dirents s' = (dirents s)(filenum (data tbl ! index) := None)
                 \<and> data tbl' = (data tbl)[index := \<lparr>ctime = 0, filenum = 0, filesize = 0\<rparr>]
                 \<and> begidx tbl' = ((index + 1) mod 2 ^ 32) mod maxnum tbl
                 \<and> count tbl' = count tbl - 1"
proof -
  let ?keep = "Audit_RemainAge (config env) * SECS_PER_DAY
              \<ge> last_audit_time tbl - ctime (data tbl ! index)
            \<or> Audit_RemainAge (config env) * SECS_PER_DAY
              > last_audit_time tbl - ctime (data tbl ! (((index + 1) mod 2 ^ 32) mod maxnum tbl))"
  define s1 where "s1 = (if u64 (int ((pgaudit_totalspace s + fsize) mod 2 ^ 64)
                               - Audit_SpaceLimit (config env) * 1024)
                        \<ge> space_beyond_size s
                     then s\<lparr>space_beyond_size := (space_beyond_size s + SPACE_INTERVAL_SIZE) mod 2 ^ 64\<rparr>
                     else s)"
  have ne: "data tbl \<noteq> []" using idx by (cases "data tbl") simp_all
  have pos: "maxnum tbl \<noteq> 0" using ne mx by simp
  have nxt: "\<not> length (data tbl) \<le> ((index + 1) mod 2 ^ 32) mod maxnum tbl"
    using ne mx by (simp add: mod_length_not_le)
  have rem: "Audit_RemainAge (config env) * SECS_PER_DAY \<noteq> 0"
    using age by (simp add: SECS_PER_DAY_def)
  have body: "cleanup_body env fsize index s tbl =
      (if ?keep then Inr (Break (index, s1)) else cleanup_remove env index s1 tbl)"
    unfolding cleanup_body_def Let_def s1_def
    using idx pol rem ceil cnt pos nxt by simp
  have loop: "cleanup_loop env fsize index s =
     (case cleanup_body env fsize index s tbl of
        Inl e \<Rightarrow> Some (Inl e)
      | Inr (Break (i, s')) \<Rightarrow> Some (Inr s')
      | Inr (Continue (i, s')) \<Rightarrow> cleanup_loop env fsize i s')"
    using tbl cond by (rule cleanup_loop_unfold)
  have s1: "dirents s1 = dirents s" "audit_indextbl s1 = Some tbl"
    "index_table_file s1 = index_table_file s" "pgaudit_totalspace s1 = pgaudit_totalspace s"
    "sysauditFile s1 = Some ino" "clock s1 = t # later"
    using tbl f clk by (simp_all add: s1_def)
  show ?thesis
  proof (cases ?keep)
    case True
    then have "cleanup_loop env fsize index s = Some (Inr s1)"
      using loop body by simp
    then show ?thesis
      using True s1 by auto
  next
    case False
    from cleanup_remove_ok [OF idx mx ul s1(5,6) lt wr]
    obtain r s' tbl' where r: "cleanup_remove env index s1 tbl = Inr r"
      "r = Break (index, s') \<or> r = Continue (begidx tbl', s')"
      "audit_indextbl s' = Some tbl'"
      "dirents s' = (dirents s1)(filenum (data tbl ! index) := None)"
      "data tbl' = (data tbl)[index := \<lparr>ctime = 0, filenum = 0, filesize = 0\<rparr>]"
      "begidx tbl' = ((index + 1) mod 2 ^ 32) mod maxnum tbl"
      "count tbl' = count tbl - 1"
      by blast
    have b: "cleanup_body env fsize index s tbl = Inr r"
      using body False r(1) by simp
    have l: "cleanup_loop env fsize index s =
                     (case r of Break (i, s'') \<Rightarrow> Some (Inr s'')
                      | Continue (i, s'') \<Rightarrow> cleanup_loop env fsize i s'')"
      using loop b by (cases r) auto
    show ?thesis
      using False b l r(2-7) s1(1) by auto
  qed
qed

lemmas eval_cleanup =
  pgaudit_cleanup_def cleanup_condition_def cleanup_body_def cleanup_remove_def
  retention_env_def retention_state_def example_env_def example_state_def
  ftell_def u64_def u32_def SECS_PER_DAY_def SPACE_MAXIMUM_SIZE_def SPACE_INTERVAL_SIZE_def
  audit_report_internal_def pgaudit_write_file.simps set_last_audit_time_def
  pgaudit_update_indexfile_def result_state_def current_slot_def dirent_def Let_def
  length_big_file

theorem time_priority_retention_witness:
  "\<exists>r s' tbl'.
     cleanup_body retention_env 0 0 (retention_state 100000)
       \<lparr>maxnum = 4, begidx = 0, curidx = 1, count = 2, last_audit_time = 250000,
        data = [\<lparr>ctime = 100, filenum = 0, filesize = 2000000\<rparr>,
                \<lparr>ctime = 100000, filenum = 1, filesize = 0\<rparr>,
                \<lparr>ctime = 0, filenum = 0, filesize = 0\<rparr>,
                \<lparr>ctime = 0, filenum = 0, filesize = 0\<rparr>]\<rparr> = Inr r
     \<and> (r = Break (0, s') \<or> r = Continue (1, s'))
     \<and> audit_indextbl s' = Some tbl' \<and> dirents s' 0 = None \<and> count tbl' = 1"
proof -
  let ?s = "retention_state 100000"
  let ?tbl = "\<lparr>maxnum = 4, begidx = 0, curidx = 1, count = 2, last_audit_time = 250000,
        data = [\<lparr>ctime = 100, filenum = 0, filesize = 2000000\<rparr>,
                \<lparr>ctime = 100000, filenum = 1, filesize = 0\<rparr>,
                \<lparr>ctime = 0, filenum = 0, filesize = 0\<rparr>,
                \<lparr>ctime = 0, filenum = 0, filesize = 0\<rparr>]\<rparr>"
  have h: "audit_indextbl ?s = Some ?tbl"
    "Audit_CleanupPolicy (config retention_env) = 0"
    "Audit_RemainAge (config retention_env) \<noteq> 0"
    "(pgaudit_totalspace ?s + 0) mod 2 ^ 64 \<le> SPACE_MAXIMUM_SIZE"
    "count ?tbl \<le> u32 (Audit_RemainThreshold (config retention_env))"
    "cleanup_condition retention_env 0 ?s ?tbl"
    "0 < length (data ?tbl)" "maxnum ?tbl = length (data ?tbl)"
    "\<not> unlink_fails retention_env (filenum (data ?tbl ! 0))"
    "sysauditFile ?s = Some 1" "clock ?s = 250001 # [250002, 250003]"
    "last_audit_time ?tbl \<le> 250001" "\<not> fwrite_fails retention_env"
    by (simp_all add: eval_cleanup)
  have old: "\<not> (Audit_RemainAge (config retention_env) * SECS_PER_DAY
              \<ge> last_audit_time ?tbl - ctime (data ?tbl ! 0)
            \<or> Audit_RemainAge (config retention_env) * SECS_PER_DAY
              > last_audit_time ?tbl - ctime (data ?tbl ! (((0 + 1) mod 2 ^ 32) mod maxnum ?tbl)))"
    by (simp add: eval_cleanup)
  from time_priority_retention [OF h] old
  obtain r s' tbl' where
    "cleanup_body retention_env 0 0 ?s ?tbl = Inr r"
    "r = Break (0, s') \<or> r = Continue (begidx tbl', s')"
    "audit_indextbl s' = Some tbl'"
    "dirents s' = (dirents ?s)(filenum (data ?tbl ! 0) := None)"
    "begidx tbl' = ((0 + 1) mod 2 ^ 32) mod maxnum ?tbl"
    "count tbl' = count ?tbl - 1"
    by auto
  then show ?thesis
    by (intro exI [of _ r] exI [of _ s'] exI [of _ tbl']) auto
qed

text \<open>
  Claim C2 as stated fails where the victim is old and the next slot is young: with a
  retention age of 86400 seconds, the victim 249900 seconds old and the next slot 50000
  seconds old, the pass keeps the victim and changes nothing.
\<close>

theorem time_priority_keeps_old_victim:
  "pgaudit_cleanup retention_env (retention_state 200000) = Some (Inr (retention_state 200000))"
  unfolding pgaudit_cleanup_def
  by (subst cleanup_loop.simps) (simp add: eval_cleanup)

text \<open>
  Claim C1, at a concrete input. The table holds the open file \<^verbatim>\<open>0_adt\<close> only
  (\<open>begidx = curidx = 0\<close>), which has grown to 2000000 bytes under a space limit of
  1024 KB and the space-priority policy. The pass unlinks \<^verbatim>\<open>0_adt\<close> and zeroes the
  slot at \<open>curidx\<close> while the file stays open; the test \<^verbatim>\<open>index == curidx\<close> is made
  after the removal.
\<close>

theorem cleanup_unlinks_open_file:
  "sysauditFile (example_state\<lparr>inodes := (inodes example_state)(0 := big_file)\<rparr>) = Some 0
   \<and> dirent 0 (example_state\<lparr>inodes := (inodes example_state)(0 := big_file)\<rparr>) = Some 0
   \<and> current_slot (example_state\<lparr>inodes := (inodes example_state)(0 := big_file)\<rparr>)
       = Some \<lparr>ctime = 800, filenum = 0, filesize = 0\<rparr>
   \<and> map_option (dirent 0)
         (Option.bind
            (pgaudit_cleanup example_env
               (example_state\<lparr>inodes := (inodes example_state)(0 := big_file)\<rparr>))
            result_state)
       = Some None
   \<and> map_option current_slot
         (Option.bind
            (pgaudit_cleanup example_env
               (example_state\<lparr>inodes := (inodes example_state)(0 := big_file)\<rparr>))
            result_state)
       = Some (Some \<lparr>ctime = 0, filenum = 0, filesize = 0\<rparr>)
   \<and> map_option sysauditFile
         (Option.bind
            (pgaudit_cleanup example_env
               (example_state\<lparr>inodes := (inodes example_state)(0 := big_file)\<rparr>))
            result_state)
       = Some (Some 0)"
proof -
  have "\<exists>s'. pgaudit_cleanup example_env
               (example_state\<lparr>inodes := (inodes example_state)(0 := big_file)\<rparr>)
             = Some (Inr s') \<and> dirent 0 s' = None
             \<and> current_slot s' = Some \<lparr>ctime = 0, filenum = 0, filesize = 0\<rparr>
             \<and> sysauditFile s' = Some 0"
    unfolding pgaudit_cleanup_def
    by (subst cleanup_loop.simps) (simp add: eval_cleanup)
  then show ?thesis
    by (auto simp: example_state_def dirent_def current_slot_def result_state_def)
qed

end
